theory Spec2Isabelle
  imports Main
begin

section \<open>JavaScript values\<close>

text \<open>
  The service is a single Express file that exists in three copies. The first copy is the
  one whose read routes decode the two embedded lists with \<open>JSON.parse\<close> and which has
  the report route \<open>/api/relatorios/:tipo\<close>; its definitions carry the plain route names.
  The second copy is the one whose list route joins the stage name (\<open>etapa_nome\<close>) and
  whose create route answers the whole row; it differs from the first in the guard and in
  the community routes and has no report route. Its definitions carry the suffix \<open>_v2\<close>.
  The third copy (\<open>server.js\<close>) has only the user routes, with the guard of the second.

  Request bodies are what \<open>bodyParser.json()\<close> leaves in \<open>req.body\<close>. The two embedded lists
  of a community are free-form documents, so they are values of the type \<open>json\<close>; a number
  in such a document is an integer (the documents hold names and charism ids). An absent
  or \<open>null\<close> field is \<open>None\<close>. Scalar fields are typed as the table columns they are
  written to: a count or a stage id is an integer of any size, a name or a date is a text.
\<close>

datatype json =
    JNull
  | JBool bool
  | JNum int
  | JStr string
  | JArr "json list"
  | JObj "(string \<times> json) list"

text \<open>Truthiness, as used by \<open>!x\<close>, \<open>if(x)\<close> and \<open>x || y\<close>.\<close>

fun truthy :: "json \<Rightarrow> bool" where
  "truthy JNull = False"
| "truthy (JBool b) = b"
| "truthy (JNum n) = (n \<noteq> 0)"
| "truthy (JStr s) = (s \<noteq> [])"
| "truthy (JArr xs) = True"
| "truthy (JObj kvs) = True"

text \<open>\<open>x || d\<close> at each type a body field or a column is read at.\<close>

definition or_json :: "json option \<Rightarrow> json \<Rightarrow> json" where
  "or_json x d = (case x of None \<Rightarrow> d | Some v \<Rightarrow> if truthy v then v else d)"

definition or_text :: "string option \<Rightarrow> string \<Rightarrow> string" where
  "or_text x d = (case x of None \<Rightarrow> d | Some s \<Rightarrow> if s = [] then d else s)"

definition or_int :: "int option \<Rightarrow> int \<Rightarrow> int" where
  "or_int x d = (case x of None \<Rightarrow> d | Some n \<Rightarrow> if n = 0 then d else n)"

definition or_bool :: "bool option \<Rightarrow> bool \<Rightarrow> bool" where
  "or_bool x d = (case x of None \<Rightarrow> d | Some b \<Rightarrow> if b then b else d)"

text \<open>\<open>x || null\<close>: a falsy value is written to the column as \<open>NULL\<close>.\<close>

definition or_null_int :: "int option \<Rightarrow> int option" where
  "or_null_int x = (case x of None \<Rightarrow> None | Some n \<Rightarrow> if n = 0 then None else Some n)"

definition or_null_text :: "string option \<Rightarrow> string option" where
  "or_null_text x = (case x of None \<Rightarrow> None | Some s \<Rightarrow> if s = [] then None else Some s)"

text \<open>\<open>!x\<close> on a text field.\<close>

definition falsy_text :: "string option \<Rightarrow> bool" where
  "falsy_text x = (case x of None \<Rightarrow> True | Some s \<Rightarrow> s = [])"



text \<open>
  Decimal notation of an integer, as \<open>String(n)\<close> writes it (for every integer a \<open>SERIAL\<close>
  column can hold, and up to twenty-one digits).
\<close>

definition digit :: "nat \<Rightarrow> char" where
  "digit n = char_of (48 + n)"

fun show_nat :: "nat \<Rightarrow> string" where
  "show_nat n = (if n < 10 then [digit n] else show_nat (n div 10) @ [digit (n mod 10)])"

declare show_nat.simps [simp del]

definition show_int :: "int \<Rightarrow> string" where
  "show_int i = (if i < 0 then CHR ''-'' # show_nat (nat (- i)) else show_nat (nat i))"

fun join :: "string \<Rightarrow> string list \<Rightarrow> string" where
  "join sep [] = []"
| "join sep [x] = x"
| "join sep (x # y # ys) = x @ sep @ join sep (y # ys)"



section \<open>The libraries the routes call\<close>

text \<open>
  \<open>JSON\<close>, \<open>bcrypt\<close> and \<open>jsonwebtoken\<close> are not code of the service. Every route takes them
  as a parameter, and a theorem assumes of them only what it names. \<open>JSON_parse\<close> is \<open>None\<close>
  where \<open>JSON.parse\<close> throws a \<open>SyntaxError\<close>. \<open>bcrypt_hash\<close> is \<open>bcrypt.hash(_, 10)\<close> with
  the salt it draws; \<open>bcrypt_compare\<close> is \<open>None\<close> where the promise of \<open>bcrypt.compare\<close> is
  rejected (the \<open>data\<close> argument may be \<open>undefined\<close>). \<open>jwt_sign\<close> and \<open>jwt_verify\<close> are
  \<open>jwt.sign(_, SECRET, { expiresIn: '7d' })\<close> and \<open>jwt.verify(_, SECRET)\<close> at the time of the
  request; \<open>jwt_verify\<close> is \<open>None\<close> where \<open>jwt.verify\<close> throws, and its argument is \<open>None\<close>
  where the route passes \<open>undefined\<close>.

  Which texts PostgreSQL takes is not code of the service either: \<open>pg_text\<close> says whether a
  text can be bound where a \<open>TEXT\<close> is expected (a text with a zero byte cannot), and
  \<open>pg_date\<close> whether a text can be bound where a \<open>DATE\<close> is expected.
\<close>

record claims =
  claim_id :: int
  claim_email :: string
  claim_is_admin :: bool

record lib =
  JSON_parse :: "string \<Rightarrow> json option"
  JSON_stringify :: "json \<Rightarrow> string"
  bcrypt_hash :: "string \<Rightarrow> string"
  bcrypt_compare :: "string option \<Rightarrow> string \<Rightarrow> bool option"
  jwt_sign :: "claims \<Rightarrow> string"
  jwt_verify :: "string option \<Rightarrow> claims option"
  pg_text :: "string \<Rightarrow> bool"
  pg_date :: "string \<Rightarrow> bool"

section \<open>The tables\<close>

text \<open>
  A table is the list of its rows in insertion order, with the next value of its \<open>SERIAL\<close>
  sequence. The column \<open>created_at\<close> of \<open>users\<close> is never read by a route and is left out.
  The columns \<open>id\<close> are named \<open>u_id\<close> and \<open>c_id\<close>. A date is the text the column was given.
\<close>

record user_row =
  u_id :: int
  u_name :: string
  u_email :: string
  u_password :: string
  u_is_admin :: bool

record comunidade_cols =
  numero_comunidade :: "string option"
  nome_diocese :: "string option"
  nome_bispo :: "string option"
  nome_cidade :: "string option"
  nome_paroquia :: "string option"
  nome_paroco :: "string option"
  nome_vigario :: "string option"
  qtd_total :: "int option"
  qtd_jovens :: "int option"
  etapa_id :: "int option"
  data_formacao :: "string option"
  data_ultima_etapa :: "string option"

text \<open>The body of a community request: the columns and the two lists.\<close>

record comunidade_data = comunidade_cols +
  levantados :: "json option"
  carismas :: "json option"

record comunidade_row = comunidade_cols +
  c_id :: int
  levantados_json :: "string option"
  carismas_json :: "string option"

record db =
  users :: "user_row list"
  users_id_seq :: int
  etapas :: "(int \<times> string) list"
  etapas_id_seq :: int
  carismas_tab :: "(int \<times> string) list"
  carismas_id_seq :: int
  comunidades :: "comunidade_row list"
  comunidades_id_seq :: int

section \<open>Responses\<close>

text \<open>
  The texts of the error bodies \<open>{ error: ... }\<close>, in the order they appear: \<open>Sem token\<close>,
  \<open>Token invalido\<close>, \<open>Email e senha obrigatorios\<close>, \<open>Email ja cadastrado\<close>,
  \<open>Usuario nao encontrado\<close>, \<open>Senha incorreta\<close>, \<open>Erro ao atualizar (...)\<close>,
  \<open>Nao encontrado\<close> (in the second copy \<open>Comunidade nao encontrada\<close>), \<open>Acesso restrito\<close>,
  \<open>Erro ao criar comunidade\<close>, \<open>Erro ao atualizar comunidade\<close>.
\<close>

datatype message =
    Sem_token
  | Token_invalido
  | Email_e_senha_obrigatorios
  | Email_ja_cadastrado
  | Usuario_nao_encontrado
  | Senha_incorreta
  | Erro_ao_atualizar
  | Nao_encontrado
  | Comunidade_nao_encontrada
  | Acesso_restrito
  | Erro_ao_criar_comunidade
  | Erro_ao_atualizar_comunidade

text \<open>
  The body given to \<open>res.json\<close>. \<open>Token_user\<close> is \<open>{ token, user }\<close> with the user's id,
  email, name (login only) and admin flag; \<open>Parsed\<close> is a row with the added fields
  \<open>levantados\<close> and \<open>carismas\<close>; \<open>Joined\<close> is a row with the added field \<open>etapa_nome\<close>;
  \<open>Totals\<close> is a list of \<open>{ nome, total }\<close> (or of the grouped counts of the other
  reports); \<open>No_body\<close> is \<open>res.json(undefined)\<close>.
\<close>

datatype body =
    Error message
  | Ok_true
  | Token_user string int string "string option" bool
  | Options "(int \<times> string) list" "(int \<times> string) list"
  | Id_only int
  | Row comunidade_row
  | Parsed comunidade_row json json
  | Parsed_list "(comunidade_row \<times> json \<times> json) list"
  | Joined_list "(comunidade_row \<times> string option) list"
  | Totals "(string option \<times> nat) list"
  | Json_list "json list"
  | No_body

text \<open>
  What a route ends in: a response with its status, or an exception (a rejected promise)
  that no \<open>catch\<close> of the route handles, so that the route sends no response.
\<close>

datatype js_error = SyntaxError | TypeError | QueryError | BcryptError

datatype outcome = Reply nat body | Uncaught js_error

section \<open>The statements sent to the database\<close>

text \<open>
  Every statement is sent with its values as bound parameters. PostgreSQL converts each
  bound value to the type of the column it is written to or compared with when the
  statement is bound: before any row is looked at and before a sequence value is drawn.
  A value it cannot convert makes the statement fail, whatever rows the tables hold.

  An \<open>INTEGER\<close> has 32 bits. The route parameter \<open>:id\<close> is a text; it is modelled by what
  the database reads it as: the numeral of an integer, of any size, or a text that is
  no numeral of an integer. \<open>int4_in\<close> is the integer an \<open>INTEGER\<close> comparison takes it as.
  A sequence of a \<open>SERIAL\<close> column does not go beyond the largest \<open>INTEGER\<close>.
\<close>

definition int4 :: "int \<Rightarrow> bool" where
  "int4 n = (- 2147483648 \<le> n \<and> n \<le> 2147483647)"

datatype param = Int_text int | Other_text

definition int4_in :: "param \<Rightarrow> int option" where
  "int4_in p = (case p of Int_text n \<Rightarrow> if int4 n then Some n else None | Other_text \<Rightarrow> None)"

text \<open>A bound value that may be \<open>NULL\<close>: \<open>NULL\<close> is taken by every type.\<close>

definition opt_ok :: "('a \<Rightarrow> bool) \<Rightarrow> 'a option \<Rightarrow> bool" where
  "opt_ok ok x = (case x of None \<Rightarrow> True | Some v \<Rightarrow> ok v)"

text \<open>
  \<open>initDb\<close> creates the tables if they do not exist and inserts the four stages and the five
  charisms with \<open>ON CONFLICT DO NOTHING\<close>: a name that is there, or an id that is taken,
  skips the insert. A sequence value is drawn before the conflict is seen, so a skipped
  insert still advances the sequence. The names are UTF-8 text.
\<close>

definition empty_db :: db where
  "empty_db = \<lparr>users = [], users_id_seq = 1, etapas = [], etapas_id_seq = 1,
     carismas_tab = [], carismas_id_seq = 1, comunidades = [], comunidades_id_seq = 1\<rparr>"

definition insert_nome :: "string \<Rightarrow> (int \<times> string) list \<times> int \<Rightarrow> (int \<times> string) list \<times> int" where
  "insert_nome nome t =
     (if nome \<in> set (map snd (fst t)) \<or> snd t \<in> set (map fst (fst t)) then (fst t, snd t + 1)
      else (fst t @ [(snd t, nome)], snd t + 1))"

definition c_til :: string where
  "c_til = [CHR 0xC3, CHR 0xA7, CHR 0xC3, CHR 0xA3]"

definition a_til :: string where
  "a_til = [CHR 0xC3, CHR 0xA3]"

definition initDb :: "db \<Rightarrow> db" where
  "initDb d =
     (let e = fold insert_nome
                [''Inicia'' @ c_til @ ''o'', ''Forma'' @ c_til @ ''o'', ''Miss'' @ a_til @ ''o'',
                 ''Consolida'' @ c_til @ ''o'']
                (etapas d, etapas_id_seq d);
          c = fold insert_nome
                [''Encontro'', ''Anima'' @ c_til @ ''o'', ''Acolhida'',
                 ''Evangeliza'' @ c_til @ ''o'', ''Liturgia'']
                (carismas_tab d, carismas_id_seq d)
      in d\<lparr>etapas := fst e, etapas_id_seq := snd e,
            carismas_tab := fst c, carismas_id_seq := snd c\<rparr>)"

text \<open>
  \<open>INSERT INTO users ... RETURNING id,email,is_admin\<close>. The statement fails (\<open>None\<close>), and
  nothing changes, when one of the three texts cannot be bound or the sequence is
  exhausted. The column \<open>email\<close> is \<open>UNIQUE\<close> and the column \<open>id\<close> is the primary key: the
  statement also fails when the email or the id drawn from the sequence is already
  there; the sequence value is drawn then all the same.
\<close>

definition insert_user ::
  "lib \<Rightarrow> db \<Rightarrow> string \<Rightarrow> string \<Rightarrow> string \<Rightarrow> bool \<Rightarrow> db \<times> user_row option" where
  "insert_user L d name email hash is_admin =
     (if \<not> (pg_text L name \<and> pg_text L email \<and> pg_text L hash) \<or> \<not> int4 (users_id_seq d)
      then (d, None)
      else let row = \<lparr>u_id = users_id_seq d, u_name = name, u_email = email, u_password = hash,
                        u_is_admin = is_admin\<rparr>;
               d' = d\<lparr>users_id_seq := users_id_seq d + 1\<rparr>
        in if email \<in> set (map u_email (users d)) \<or> users_id_seq d \<in> set (map u_id (users d))
           then (d', None)
           else (d'\<lparr>users := users d @ [row]\<rparr>, Some row))"

text \<open>
  \<open>SELECT * FROM users WHERE email = $1\<close>. \<open>select_users_by_email\<close> is the rows the
  statement selects; an absent email is \<open>NULL\<close> and matches no row. \<open>query_users_by_email\<close>
  is the statement: it fails when the email cannot be bound.
\<close>

definition select_users_by_email :: "db \<Rightarrow> string option \<Rightarrow> user_row list" where
  "select_users_by_email d email = filter (\<lambda>u. Some (u_email u) = email) (users d)"

definition query_users_by_email :: "lib \<Rightarrow> db \<Rightarrow> string option \<Rightarrow> user_row list option" where
  "query_users_by_email L d email =
     (if opt_ok (pg_text L) email then Some (select_users_by_email d email) else None)"

definition select_users_by_id :: "db \<Rightarrow> int \<Rightarrow> user_row list" where
  "select_users_by_id d i = filter (\<lambda>u. u_id u = i) (users d)"

text \<open>
  \<open>UPDATE users SET name=$1,email=$2,password=$3 WHERE id=$4\<close>: fails when one of the
  three texts cannot be bound, and when a row is updated to an email that a row with
  another id holds.
\<close>

definition update_user :: "lib \<Rightarrow> db \<Rightarrow> string \<Rightarrow> string \<Rightarrow> string \<Rightarrow> int \<Rightarrow> db option" where
  "update_user L d name email hash i =
     (if \<not> (pg_text L name \<and> pg_text L email \<and> pg_text L hash) then None
      else if list_ex (\<lambda>u. u_id u = i) (users d)
         \<and> list_ex (\<lambda>u. u_id u \<noteq> i \<and> u_email u = email) (users d)
      then None
      else Some (d\<lparr>users :=
             map (\<lambda>u. if u_id u = i then u\<lparr>u_name := name, u_email := email, u_password := hash\<rparr>
                       else u) (users d)\<rparr>))"

text \<open>
  The values \<open>$1\<close> ... \<open>$14\<close> of \<open>INSERT INTO comunidades\<close> and \<open>UPDATE comunidades\<close> can be
  bound when every text is taken as a \<open>TEXT\<close>, every count and the stage id is an
  \<open>INTEGER\<close>, and every date text is taken as a \<open>DATE\<close>.
\<close>

definition binds :: "lib \<Rightarrow> comunidade_cols \<Rightarrow> string \<Rightarrow> string \<Rightarrow> bool" where
  "binds L v lj cj =
     (opt_ok (pg_text L) (numero_comunidade v) \<and> opt_ok (pg_text L) (nome_diocese v)
      \<and> opt_ok (pg_text L) (nome_bispo v) \<and> opt_ok (pg_text L) (nome_cidade v)
      \<and> opt_ok (pg_text L) (nome_paroquia v) \<and> opt_ok (pg_text L) (nome_paroco v)
      \<and> opt_ok (pg_text L) (nome_vigario v)
      \<and> opt_ok int4 (qtd_total v) \<and> opt_ok int4 (qtd_jovens v) \<and> opt_ok int4 (etapa_id v)
      \<and> opt_ok (pg_date L) (data_formacao v) \<and> opt_ok (pg_date L) (data_ultima_etapa v)
      \<and> pg_text L lj \<and> pg_text L cj)"

text \<open>The column \<open>etapa_id\<close> references \<open>etapas(id)\<close>: it is \<open>NULL\<close> or the id of a stage.\<close>

definition etapa_ok :: "db \<Rightarrow> int option \<Rightarrow> bool" where
  "etapa_ok d e = (case e of None \<Rightarrow> True | Some i \<Rightarrow> i \<in> set (map fst (etapas d)))"

text \<open>
  \<open>INSERT INTO comunidades ... RETURNING\<close>. The statement fails, and nothing changes, when
  the values cannot be bound or the sequence is exhausted. It also fails when the stage
  is not in the table of stages or the id drawn from the sequence is already the primary
  key of a row; the sequence value is drawn then all the same.
\<close>

definition insert_comunidade ::
  "lib \<Rightarrow> db \<Rightarrow> comunidade_cols \<Rightarrow> string \<Rightarrow> string \<Rightarrow> db \<times> comunidade_row option" where
  "insert_comunidade L d v lj cj =
     (if \<not> binds L v lj cj \<or> \<not> int4 (comunidades_id_seq d) then (d, None)
      else let row = \<lparr>numero_comunidade = numero_comunidade v, nome_diocese = nome_diocese v,
                        nome_bispo = nome_bispo v, nome_cidade = nome_cidade v,
                        nome_paroquia = nome_paroquia v, nome_paroco = nome_paroco v,
                        nome_vigario = nome_vigario v, qtd_total = qtd_total v,
                        qtd_jovens = qtd_jovens v, etapa_id = etapa_id v,
                        data_formacao = data_formacao v, data_ultima_etapa = data_ultima_etapa v,
                        c_id = comunidades_id_seq d, levantados_json = Some lj,
                        carismas_json = Some cj\<rparr>;
               d' = d\<lparr>comunidades_id_seq := comunidades_id_seq d + 1\<rparr>
        in if etapa_ok d (etapa_id v) \<and> comunidades_id_seq d \<notin> set (map c_id (comunidades d))
           then (d'\<lparr>comunidades := comunidades d @ [row]\<rparr>, Some row)
           else (d', None))"

text \<open>
  The rows with a given id, and \<open>SELECT * FROM comunidades WHERE id = $1\<close>: the statement
  fails (\<open>None\<close>) when the parameter is not read as an \<open>INTEGER\<close>.
\<close>

definition rows_with_id :: "db \<Rightarrow> int \<Rightarrow> comunidade_row list" where
  "rows_with_id d i = filter (\<lambda>r. c_id r = i) (comunidades d)"

definition select_comunidades_by_id :: "db \<Rightarrow> param \<Rightarrow> comunidade_row list option" where
  "select_comunidades_by_id d p =
     (case int4_in p of None \<Rightarrow> None | Some i \<Rightarrow> Some (rows_with_id d i))"


text \<open>
  \<open>UPDATE comunidades SET ... WHERE id=$15\<close>. The statement fails when the id is not read
  as an \<open>INTEGER\<close> or the values cannot be bound, whether or not a row has the id. Every
  column but the id is replaced in the rows with that id; the statement fails when a row
  is given a stage that is not in the table of stages. The result is the new table and
  the rows updated (\<open>RETURNING *\<close>).
\<close>

definition update_comunidade ::
  "lib \<Rightarrow> db \<Rightarrow> comunidade_cols \<Rightarrow> string \<Rightarrow> string \<Rightarrow> param
     \<Rightarrow> (db \<times> comunidade_row list) option" where
  "update_comunidade L d v lj cj p =
     (case int4_in p of
        None \<Rightarrow> None
      | Some i \<Rightarrow>
          if \<not> binds L v lj cj then None
          else let row = \<lparr>numero_comunidade = numero_comunidade v, nome_diocese = nome_diocese v,
                            nome_bispo = nome_bispo v, nome_cidade = nome_cidade v,
                            nome_paroquia = nome_paroquia v, nome_paroco = nome_paroco v,
                            nome_vigario = nome_vigario v, qtd_total = qtd_total v,
                            qtd_jovens = qtd_jovens v, etapa_id = etapa_id v,
                            data_formacao = data_formacao v,
                            data_ultima_etapa = data_ultima_etapa v,
                            c_id = i, levantados_json = Some lj, carismas_json = Some cj\<rparr>
            in if rows_with_id d i \<noteq> [] \<and> \<not> etapa_ok d (etapa_id v) then None
               else Some (d\<lparr>comunidades :=
                              map (\<lambda>r. if c_id r = i then row else r) (comunidades d)\<rparr>,
                          map (\<lambda>r. row) (rows_with_id d i)))"

text \<open>
  \<open>DELETE FROM comunidades WHERE id = $1\<close>: the statement fails when the parameter is not
  read as an \<open>INTEGER\<close>; otherwise the rows with that id are removed.
\<close>

definition delete_comunidade :: "db \<Rightarrow> param \<Rightarrow> db option" where
  "delete_comunidade d p =
     (case int4_in p of
        None \<Rightarrow> None
      | Some i \<Rightarrow> Some (d\<lparr>comunidades := filter (\<lambda>r. c_id r \<noteq> i) (comunidades d)\<rparr>))"

section \<open>The guard\<close>

text \<open>\<open>header.split(' ')\<close>: the pieces between single spaces, empty pieces included.\<close>

fun split :: "char \<Rightarrow> string \<Rightarrow> string list" where
  "split sep [] = [[]]"
| "split sep (c # cs) =
     (if c = sep then [] # split sep cs
      else (case split sep cs of
              [] \<Rightarrow> [[c]]
            | piece # pieces \<Rightarrow> (c # piece) # pieces))"

definition gerarToken :: "lib \<Rightarrow> int \<Rightarrow> string \<Rightarrow> bool \<Rightarrow> string" where
  "gerarToken L i email is_admin =
     jwt_sign L \<lparr>claim_id = i, claim_email = email, claim_is_admin = is_admin\<rparr>"

text \<open>
  \<open>verificarToken\<close> either answers itself (\<open>Inl\<close>) or sets \<open>req.user\<close> and calls \<open>next()\<close>
  (\<open>Inr\<close>). The argument is \<open>req.headers['authorization']\<close>.
\<close>

definition verificarToken :: "lib \<Rightarrow> string option \<Rightarrow> outcome + claims" where
  "verificarToken L header =
     (case header of
        None \<Rightarrow> Inl (Reply 401 (Error Sem_token))
      | Some h \<Rightarrow>
          if h = [] then Inl (Reply 401 (Error Sem_token))
          else let parts = split CHR '' '' h in
            if length parts \<noteq> 2 then Inl (Reply 401 (Error Token_invalido))
            else (case jwt_verify L (Some (parts ! 1)) of
                    None \<Rightarrow> Inl (Reply 401 (Error Token_invalido))
                  | Some data \<Rightarrow> Inr data))"

text \<open>
  The guard of the other two copies takes \<open>header.split(' ')[1]\<close> without looking at the
  number of pieces; with one piece only that is \<open>undefined\<close>.
\<close>

definition verificarToken_v2 :: "lib \<Rightarrow> string option \<Rightarrow> outcome + claims" where
  "verificarToken_v2 L header =
     (case header of
        None \<Rightarrow> Inl (Reply 401 (Error Sem_token))
      | Some h \<Rightarrow>
          if h = [] then Inl (Reply 401 (Error Sem_token))
          else let parts = split CHR '' '' h;
                   token = (if 1 < length parts then Some (parts ! 1) else None) in
            (case jwt_verify L token of
               None \<Rightarrow> Inl (Reply 401 (Error Token_invalido))
             | Some data \<Rightarrow> Inr data))"

section \<open>The user routes\<close>

text \<open>
  \<open>POST /api/register\<close>. The arguments after the tables are the fields of the body. Any
  failure of the insert is answered as an email already registered.
\<close>

definition post_api_register ::
  "lib \<Rightarrow> db \<Rightarrow> string option \<Rightarrow> string option \<Rightarrow> string option \<Rightarrow> bool option \<Rightarrow> db \<times> outcome" where
  "post_api_register L d name email password is_admin =
     (if falsy_text email \<or> falsy_text password
      then (d, Reply 400 (Error Email_e_senha_obrigatorios))
      else let hash = bcrypt_hash L (or_text password []) in
        (case insert_user L d (or_text name []) (or_text email []) hash (or_bool is_admin False) of
           (d', None) \<Rightarrow> (d', Reply 400 (Error Email_ja_cadastrado))
         | (d', Some user) \<Rightarrow>
             (d', Reply 200 (Token_user (gerarToken L (u_id user) (u_email user) (u_is_admin user))
                               (u_id user) (u_email user) None (u_is_admin user)))))"

text \<open>
  \<open>POST /api/login\<close>. It writes nothing. Neither the query nor \<open>bcrypt.compare\<close> is inside
  a \<open>try\<close>.
\<close>

definition post_api_login :: "lib \<Rightarrow> db \<Rightarrow> string option \<Rightarrow> string option \<Rightarrow> outcome" where
  "post_api_login L d email password =
     (case query_users_by_email L d email of
        None \<Rightarrow> Uncaught QueryError
      | Some [] \<Rightarrow> Reply 400 (Error Usuario_nao_encontrado)
      | Some (user # rest) \<Rightarrow>
          (case bcrypt_compare L password (u_password user) of
             None \<Rightarrow> Uncaught BcryptError
           | Some ok \<Rightarrow>
               if \<not> ok then Reply 400 (Error Senha_incorreta)
               else Reply 200 (Token_user (gerarToken L (u_id user) (u_email user) (u_is_admin user))
                                 (u_id user) (u_email user) (Some (u_name user)) (u_is_admin user))))"

text \<open>\<open>PUT /api/user\<close>: the handler behind the guard, then the route in each copy.\<close>

definition put_api_user_handler ::
  "lib \<Rightarrow> db \<Rightarrow> claims \<Rightarrow> string option \<Rightarrow> string option \<Rightarrow> string option \<Rightarrow> db \<times> outcome" where
  "put_api_user_handler L d user name email password =
     (case select_users_by_id d (claim_id user) of
        [] \<Rightarrow> (d, Reply 404 (Error Usuario_nao_encontrado))
      | row # rest \<Rightarrow>
          let hash = (if falsy_text password then u_password row
                      else bcrypt_hash L (or_text password [])) in
          (case update_user L d (or_text name (u_name row)) (or_text email (u_email row)) hash
                  (claim_id user) of
             None \<Rightarrow> (d, Reply 400 (Error Erro_ao_atualizar))
           | Some d' \<Rightarrow> (d', Reply 200 Ok_true)))"

definition put_api_user ::
  "lib \<Rightarrow> db \<Rightarrow> string option \<Rightarrow> string option \<Rightarrow> string option \<Rightarrow> string option \<Rightarrow> db \<times> outcome" where
  "put_api_user L d header name email password =
     (case verificarToken L header of
        Inl out \<Rightarrow> (d, out)
      | Inr user \<Rightarrow> put_api_user_handler L d user name email password)"

definition put_api_user_v2 ::
  "lib \<Rightarrow> db \<Rightarrow> string option \<Rightarrow> string option \<Rightarrow> string option \<Rightarrow> string option \<Rightarrow> db \<times> outcome" where
  "put_api_user_v2 L d header name email password =
     (case verificarToken_v2 L header of
        Inl out \<Rightarrow> (d, out)
      | Inr user \<Rightarrow> put_api_user_handler L d user name email password)"

text \<open>\<open>GET /api/options\<close>: both enumerations, ordered by id.\<close>

definition get_api_options :: "lib \<Rightarrow> db \<Rightarrow> string option \<Rightarrow> outcome" where
  "get_api_options L d header =
     (case verificarToken L header of
        Inl out \<Rightarrow> out
      | Inr user \<Rightarrow> Reply 200 (Options (sort_key fst (etapas d)) (sort_key fst (carismas_tab d))))"

section \<open>The community routes\<close>

text \<open>
  The values bound to \<open>$1\<close> ... \<open>$12\<close> by \<open>POST\<close> and \<open>PUT /api/comunidades\<close>: the counts
  default to 0, the stage and the dates to \<open>NULL\<close>.
\<close>

definition vals :: "comunidade_data \<Rightarrow> comunidade_cols" where
  "vals data =
     \<lparr>numero_comunidade = numero_comunidade data, nome_diocese = nome_diocese data,
      nome_bispo = nome_bispo data, nome_cidade = nome_cidade data,
      nome_paroquia = nome_paroquia data, nome_paroco = nome_paroco data,
      nome_vigario = nome_vigario data,
      qtd_total = Some (or_int (qtd_total data) 0),
      qtd_jovens = Some (or_int (qtd_jovens data) 0),
      etapa_id = or_null_int (etapa_id data),
      data_formacao = or_null_text (data_formacao data),
      data_ultima_etapa = or_null_text (data_ultima_etapa data)\<rparr>"

text \<open>
  \<open>POST /api/comunidades\<close>. The insert is not inside a \<open>try\<close>: a failing statement ends
  the route without a response.
\<close>

definition post_api_comunidades_handler :: "lib \<Rightarrow> db \<Rightarrow> comunidade_data \<Rightarrow> db \<times> outcome" where
  "post_api_comunidades_handler L d data =
     (case insert_comunidade L d (vals data)
             (JSON_stringify L (or_json (levantados data) (JArr [])))
             (JSON_stringify L (or_json (carismas data) (JArr []))) of
        (d', None) \<Rightarrow> (d', Uncaught QueryError)
      | (d', Some row) \<Rightarrow> (d', Reply 200 (Id_only (c_id row))))"

definition post_api_comunidades ::
  "lib \<Rightarrow> db \<Rightarrow> string option \<Rightarrow> comunidade_data \<Rightarrow> db \<times> outcome" where
  "post_api_comunidades L d header data =
     (case verificarToken L header of
        Inl out \<Rightarrow> (d, out)
      | Inr user \<Rightarrow> post_api_comunidades_handler L d data)"

text \<open>
  The callback of \<open>r.rows.map\<close> in \<open>GET /api/comunidades\<close>, and the same two assignments in
  \<open>GET /api/comunidades/:id\<close>: \<open>None\<close> where one of the two \<open>JSON.parse\<close> calls throws.
\<close>

definition parse_row :: "lib \<Rightarrow> comunidade_row \<Rightarrow> (comunidade_row \<times> json \<times> json) option" where
  "parse_row L row =
     (case JSON_parse L (or_text (levantados_json row) ''[]'') of
        None \<Rightarrow> None
      | Some l \<Rightarrow>
          (case JSON_parse L (or_text (carismas_json row) ''[]'') of
             None \<Rightarrow> None
           | Some c \<Rightarrow> Some (row, l, c)))"



text \<open>\<open>GET /api/comunidades/:id\<close>. The query is not inside a \<open>try\<close>.\<close>

definition get_api_comunidades_id_handler :: "lib \<Rightarrow> db \<Rightarrow> param \<Rightarrow> outcome" where
  "get_api_comunidades_id_handler L d p =
     (case select_comunidades_by_id d p of
        None \<Rightarrow> Uncaught QueryError
      | Some [] \<Rightarrow> Reply 404 (Error Nao_encontrado)
      | Some (row # rest) \<Rightarrow>
          (case parse_row L row of
             None \<Rightarrow> Uncaught SyntaxError
           | Some (r, l, c) \<Rightarrow> Reply 200 (Parsed r l c)))"

definition get_api_comunidades_id :: "lib \<Rightarrow> db \<Rightarrow> string option \<Rightarrow> param \<Rightarrow> outcome" where
  "get_api_comunidades_id L d header p =
     (case verificarToken L header of
        Inl out \<Rightarrow> out
      | Inr user \<Rightarrow> get_api_comunidades_id_handler L d p)"

text \<open>
  \<open>PUT /api/comunidades/:id\<close>: the answer does not depend on a row having been updated.
  The update is not inside a \<open>try\<close>.
\<close>

definition put_api_comunidades_id_handler ::
  "lib \<Rightarrow> db \<Rightarrow> param \<Rightarrow> comunidade_data \<Rightarrow> db \<times> outcome" where
  "put_api_comunidades_id_handler L d p data =
     (case update_comunidade L d (vals data)
             (JSON_stringify L (or_json (levantados data) (JArr [])))
             (JSON_stringify L (or_json (carismas data) (JArr []))) p of
        None \<Rightarrow> (d, Uncaught QueryError)
      | Some (d', rows) \<Rightarrow> (d', Reply 200 Ok_true))"

definition put_api_comunidades_id ::
  "lib \<Rightarrow> db \<Rightarrow> string option \<Rightarrow> param \<Rightarrow> comunidade_data \<Rightarrow> db \<times> outcome" where
  "put_api_comunidades_id L d header p data =
     (case verificarToken L header of
        Inl out \<Rightarrow> (d, out)
      | Inr user \<Rightarrow> put_api_comunidades_id_handler L d p data)"

text \<open>\<open>DELETE /api/comunidades/:id\<close>. The delete is not inside a \<open>try\<close>.\<close>

definition delete_api_comunidades_id ::
  "lib \<Rightarrow> db \<Rightarrow> string option \<Rightarrow> param \<Rightarrow> db \<times> outcome" where
  "delete_api_comunidades_id L d header p =
     (case verificarToken L header of
        Inl out \<Rightarrow> (d, out)
      | Inr user \<Rightarrow>
          (case delete_comunidade d p of
             None \<Rightarrow> (d, Uncaught QueryError)
           | Some d' \<Rightarrow> (d', Reply 200 Ok_true)))"

section \<open>The reports\<close>








section \<open>The community routes of the second copy\<close>

text \<open>
  The second copy binds the fields of the body as they are, answers with the row the
  statement returns, wraps \<open>POST\<close> and \<open>PUT\<close> (and no other route) in a \<open>try\<close>, and sends
  the rows as stored, without decoding the two lists.
\<close>

definition vals_v2 :: "comunidade_data \<Rightarrow> comunidade_cols" where
  "vals_v2 data =
     \<lparr>numero_comunidade = numero_comunidade data, nome_diocese = nome_diocese data,
      nome_bispo = nome_bispo data, nome_cidade = nome_cidade data,
      nome_paroquia = nome_paroquia data, nome_paroco = nome_paroco data,
      nome_vigario = nome_vigario data,
      qtd_total = qtd_total data,
      qtd_jovens = qtd_jovens data,
      etapa_id = etapa_id data,
      data_formacao = data_formacao data,
      data_ultima_etapa = data_ultima_etapa data\<rparr>"


definition get_api_comunidades_id_v2 :: "lib \<Rightarrow> db \<Rightarrow> string option \<Rightarrow> param \<Rightarrow> outcome" where
  "get_api_comunidades_id_v2 L d header p =
     (case verificarToken_v2 L header of
        Inl out \<Rightarrow> out
      | Inr user \<Rightarrow>
          (case select_comunidades_by_id d p of
             None \<Rightarrow> Uncaught QueryError
           | Some [] \<Rightarrow> Reply 404 (Error Comunidade_nao_encontrada)
           | Some (row # rest) \<Rightarrow> Reply 200 (Row row)))"

definition post_api_comunidades_v2 ::
  "lib \<Rightarrow> db \<Rightarrow> string option \<Rightarrow> comunidade_data \<Rightarrow> db \<times> outcome" where
  "post_api_comunidades_v2 L d header data =
     (case verificarToken_v2 L header of
        Inl out \<Rightarrow> (d, out)
      | Inr user \<Rightarrow>
          (case insert_comunidade L d (vals_v2 data)
                  (JSON_stringify L (or_json (levantados data) (JArr [])))
                  (JSON_stringify L (or_json (carismas data) (JArr []))) of
             (d', None) \<Rightarrow> (d', Reply 400 (Error Erro_ao_criar_comunidade))
           | (d', Some row) \<Rightarrow> (d', Reply 200 (Row row))))"

definition put_api_comunidades_id_v2 ::
  "lib \<Rightarrow> db \<Rightarrow> string option \<Rightarrow> param \<Rightarrow> comunidade_data \<Rightarrow> db \<times> outcome" where
  "put_api_comunidades_id_v2 L d header p data =
     (case verificarToken_v2 L header of
        Inl out \<Rightarrow> (d, out)
      | Inr user \<Rightarrow>
          (case update_comunidade L d (vals_v2 data)
                  (JSON_stringify L (or_json (levantados data) (JArr [])))
                  (JSON_stringify L (or_json (carismas data) (JArr []))) p of
             None \<Rightarrow> (d, Reply 400 (Error Erro_ao_atualizar_comunidade))
           | Some (d', []) \<Rightarrow> (d', Reply 200 No_body)
           | Some (d', row # rest) \<Rightarrow> (d', Reply 200 (Row row))))"

definition delete_api_comunidades_id_v2 ::
  "lib \<Rightarrow> db \<Rightarrow> string option \<Rightarrow> param \<Rightarrow> db \<times> outcome" where
  "delete_api_comunidades_id_v2 L d header p =
     (case verificarToken_v2 L header of
        Inl out \<Rightarrow> (d, out)
      | Inr user \<Rightarrow>
          (case delete_comunidade d p of
             None \<Rightarrow> (d, Uncaught QueryError)
           | Some d' \<Rightarrow> (d', Reply 200 Ok_true)))"

section \<open>An instance of the libraries\<close>

text \<open>
  The theorems below hold for every value of the library parameter. To evaluate the
  routes on concrete requests an instance is needed; \<open>ref_lib\<close> is one. Its \<open>JSON\<close> reads and
  writes documents with integer numbers and the escapes of the quote and the backslash;
  its hash and its token are readable stand-ins (\<open>$2b$10$\<close> before the reversed password;
  \<open>a\<close> or \<open>u\<close> for the admin flag, the id, a colon and the email). Its \<open>pg_text\<close> takes the
  texts without a zero byte; its \<open>pg_date\<close> takes the texts \<open>yyyy-mm-dd\<close> with a year from
  0001, a month from 01 to 12 and a day from 01 to 28. All of these are dates, and
  PostgreSQL takes other texts as dates as well; the requests evaluated below hold no
  date, the empty text, or the text \<open>amanha\<close>, on which the instance and PostgreSQL agree.
\<close>

definition quote :: "string \<Rightarrow> string" where
  "quote s = CHR 0x22 # concat (map (\<lambda>c. if c = CHR 0x22 \<or> c = CHR 0x5C then [CHR 0x5C, c] else [c]) s)
               @ [CHR 0x22]"

fun ref_stringify :: "json \<Rightarrow> string" where
  "ref_stringify JNull = ''null''"
| "ref_stringify (JBool b) = (if b then ''true'' else ''false'')"
| "ref_stringify (JNum n) = show_int n"
| "ref_stringify (JStr s) = quote s"
| "ref_stringify (JArr xs) = ''['' @ join '','' (map ref_stringify xs) @ '']''"
| "ref_stringify (JObj kvs) =
     ''{'' @ join '','' (map (\<lambda>(k, v). quote k @ '':'' @ ref_stringify v) kvs) @ ''}''"

definition is_ws :: "char \<Rightarrow> bool" where
  "is_ws c = (c = CHR '' '' \<or> c = CHR 0x09 \<or> c = CHR 0x0A \<or> c = CHR 0x0D)"

definition is_digit :: "char \<Rightarrow> bool" where
  "is_digit c = (48 \<le> (of_char c :: nat) \<and> (of_char c :: nat) \<le> 57)"

definition read_nat :: "string \<Rightarrow> nat" where
  "read_nat s = foldl (\<lambda>a c. 10 * a + (of_char c - 48)) 0 s"

definition starts :: "string \<Rightarrow> string \<Rightarrow> bool" where
  "starts p s = (take (length p) s = p)"

fun read_chars :: "string \<Rightarrow> (string \<times> string) option" where
  "read_chars [] = None"
| "read_chars (c # cs) =
     (if c = CHR 0x22 then Some ([], cs)
      else if c = CHR 0x5C then
        (case cs of
           [] \<Rightarrow> None
         | e # cs' \<Rightarrow>
             (if e = CHR 0x22 \<or> e = CHR 0x5C then
                (case read_chars cs' of None \<Rightarrow> None | Some (x, r) \<Rightarrow> Some (e # x, r))
              else None))
      else if of_char c < (32::nat) then None
      else (case read_chars cs of None \<Rightarrow> None | Some (x, r) \<Rightarrow> Some (c # x, r)))"

definition read_number :: "string \<Rightarrow> (json \<times> string) option" where
  "read_number s =
     (let neg = starts ''-'' s;
          t = (if neg then tl s else s);
          ds = takeWhile is_digit t;
          r = dropWhile is_digit t
      in if ds = [] \<or> (1 < length ds \<and> hd ds = CHR ''0'') then None
         else Some (JNum (if neg then - int (read_nat ds) else int (read_nat ds)), r))"

text \<open>The first argument bounds the nesting depth and the number of elements read.\<close>

fun read_value :: "nat \<Rightarrow> string \<Rightarrow> (json \<times> string) option"
  and read_elements :: "nat \<Rightarrow> string \<Rightarrow> (json list \<times> string) option"
  and read_members :: "nat \<Rightarrow> string \<Rightarrow> ((string \<times> json) list \<times> string) option" where
  "read_value 0 s = None"
| "read_value (Suc k) s =
     (let t = dropWhile is_ws s in
      if starts ''null'' t then Some (JNull, drop 4 t)
      else if starts ''true'' t then Some (JBool True, drop 4 t)
      else if starts ''false'' t then Some (JBool False, drop 5 t)
      else if starts [CHR 0x22] t then
        (case read_chars (tl t) of None \<Rightarrow> None | Some (x, r) \<Rightarrow> Some (JStr x, r))
      else if starts ''['' t then
        (if starts '']'' (dropWhile is_ws (tl t)) then Some (JArr [], tl (dropWhile is_ws (tl t)))
         else (case read_elements k (tl t) of None \<Rightarrow> None | Some (xs, r) \<Rightarrow> Some (JArr xs, r)))
      else if starts ''{'' t then
        (if starts ''}'' (dropWhile is_ws (tl t)) then Some (JObj [], tl (dropWhile is_ws (tl t)))
         else (case read_members k (tl t) of None \<Rightarrow> None | Some (kvs, r) \<Rightarrow> Some (JObj kvs, r)))
      else read_number t)"
| "read_elements 0 s = None"
| "read_elements (Suc k) s =
     (case read_value k s of
        None \<Rightarrow> None
      | Some (v, r) \<Rightarrow>
          (let t = dropWhile is_ws r in
           if starts '','' t then
             (case read_elements k (tl t) of None \<Rightarrow> None | Some (vs, r') \<Rightarrow> Some (v # vs, r'))
           else if starts '']'' t then Some ([v], tl t)
           else None))"
| "read_members 0 s = None"
| "read_members (Suc k) s =
     (let t = dropWhile is_ws s in
      if starts [CHR 0x22] t then
        (case read_chars (tl t) of
           None \<Rightarrow> None
         | Some (key, r) \<Rightarrow>
             (let t' = dropWhile is_ws r in
              if starts '':'' t' then
                (case read_value k (tl t') of
                   None \<Rightarrow> None
                 | Some (v, r') \<Rightarrow>
                     (let t'' = dropWhile is_ws r' in
                      if starts '','' t'' then
                        (case read_members k (tl t'') of
                           None \<Rightarrow> None
                         | Some (kvs, r'') \<Rightarrow> Some ((key, v) # kvs, r''))
                      else if starts ''}'' t'' then Some ([(key, v)], tl t'')
                      else None))
              else None))
      else None)"

definition ref_parse :: "string \<Rightarrow> json option" where
  "ref_parse s =
     (case read_value (Suc (length s)) s of
        None \<Rightarrow> None
      | Some (v, r) \<Rightarrow> if dropWhile is_ws r = [] then Some v else None)"

text \<open>
  The documents this instance reads back from its own text: those without a control
  character in a string or a key. The text of one member of an object.
\<close>

definition plain_text :: "string \<Rightarrow> bool" where
  "plain_text s = list_all (\<lambda>c. 32 \<le> (of_char c :: nat)) s"

fun plain :: "json \<Rightarrow> bool" where
  "plain JNull = True"
| "plain (JBool b) = True"
| "plain (JNum n) = True"
| "plain (JStr s) = plain_text s"
| "plain (JArr xs) = list_all plain xs"
| "plain (JObj kvs) = list_all (\<lambda>kv. plain_text (fst kv) \<and> plain (snd kv)) kvs"

definition member_text :: "string \<times> json \<Rightarrow> string" where
  "member_text kv = quote (fst kv) @ '':'' @ ref_stringify (snd kv)"

definition ref_hash :: "string \<Rightarrow> string" where
  "ref_hash p = ''$2b$10$'' @ rev p"

definition ref_compare :: "string option \<Rightarrow> string \<Rightarrow> bool option" where
  "ref_compare data h = (case data of None \<Rightarrow> None | Some p \<Rightarrow> Some (h = ref_hash p))"

definition ref_sign :: "claims \<Rightarrow> string" where
  "ref_sign c =
     (if claim_is_admin c then CHR ''a'' else CHR ''u'') # show_int (claim_id c)
       @ CHR '':'' # claim_email c"

definition ref_verify :: "string option \<Rightarrow> claims option" where
  "ref_verify token =
     (case token of
        None \<Rightarrow> None
      | Some [] \<Rightarrow> None
      | Some (k # r) \<Rightarrow>
          if (k = CHR ''a'' \<or> k = CHR ''u'') \<and> takeWhile is_digit r \<noteq> []
             \<and> starts '':'' (dropWhile is_digit r)
          then Some \<lparr>claim_id = int (read_nat (takeWhile is_digit r)),
                      claim_email = tl (dropWhile is_digit r),
                      claim_is_admin = (k = CHR ''a'')\<rparr>
          else None)"

definition ref_text :: "string \<Rightarrow> bool" where
  "ref_text s = (CHR 0x00 \<notin> set s)"

definition ref_date :: "string \<Rightarrow> bool" where
  "ref_date s =
     (length s = 10 \<and> list_all is_digit (take 4 s) \<and> s ! 4 = CHR ''-''
      \<and> list_all is_digit (take 2 (drop 5 s)) \<and> s ! 7 = CHR ''-''
      \<and> list_all is_digit (drop 8 s)
      \<and> 1 \<le> read_nat (take 4 s)
      \<and> 1 \<le> read_nat (take 2 (drop 5 s)) \<and> read_nat (take 2 (drop 5 s)) \<le> 12
      \<and> 1 \<le> read_nat (drop 8 s) \<and> read_nat (drop 8 s) \<le> 28)"

definition ref_lib :: lib where
  "ref_lib = \<lparr>JSON_parse = ref_parse, JSON_stringify = ref_stringify, bcrypt_hash = ref_hash,
     bcrypt_compare = ref_compare, jwt_sign = ref_sign, jwt_verify = ref_verify,
     pg_text = ref_text, pg_date = ref_date\<rparr>"

section \<open>Concrete tables and requests\<close>

text \<open>
  The tables after \<open>initDb\<close> on an empty database, then after the registration of one
  administrator; the header her token is sent in.
\<close>

definition db0 :: db where
  "db0 = initDb empty_db"

definition db_ana :: db where
  "db_ana = fst (post_api_register ref_lib db0 (Some ''Ana'') (Some ''ana@x.org'') (Some ''s3nha'')
                   (Some True))"

definition bearer_ana :: "string option" where
  "bearer_ana = Some ''Bearer a1:ana@x.org''"

text \<open>The claims her token decodes to.\<close>

definition ana :: claims where
  "ana = \<lparr>claim_id = 1, claim_email = ''ana@x.org'', claim_is_admin = True\<rparr>"

text \<open>
  A body with no field at all, and a body that has only the two lists: one candidate
  \<open>{name:"X"}\<close> and one association \<open>{carisma_id:2}\<close>.
\<close>

definition no_fields :: comunidade_data where
  "no_fields = \<lparr>numero_comunidade = None, nome_diocese = None, nome_bispo = None,
     nome_cidade = None, nome_paroquia = None, nome_paroco = None, nome_vigario = None,
     qtd_total = None, qtd_jovens = None, etapa_id = None, data_formacao = None,
     data_ultima_etapa = None, levantados = None, carismas = None\<rparr>"

definition lists_x :: comunidade_data where
  "lists_x = no_fields\<lparr>levantados := Some (JArr [JObj [(''name'', JStr ''X'')]]),
                         carismas := Some (JArr [JObj [(''carisma_id'', JNum 2)]])\<rparr>"

text \<open>The tables after one community, and after two, have been created from \<open>lists_x\<close>.\<close>

definition db_x :: db where
  "db_x = fst (post_api_comunidades ref_lib db_ana bearer_ana lists_x)"

definition db_xx :: db where
  "db_xx = fst (post_api_comunidades ref_lib db_x bearer_ana lists_x)"







text \<open>A route parameter that is the numeral of an integer too large for an \<open>INTEGER\<close>.\<close>

definition huge :: param where
  "huge = Int_text 99999999999"

text \<open>
  A body whose \<open>data_formacao\<close> is the empty text, which the first copy binds as \<open>NULL\<close>
  and the second as it is; a body whose \<open>data_formacao\<close> is a text that is not a date.
\<close>

definition empty_date :: comunidade_data where
  "empty_date = no_fields\<lparr>data_formacao := Some []\<rparr>"

definition no_date :: comunidade_data where
  "no_date = no_fields\<lparr>data_formacao := Some ''amanha''\<rparr>"

section \<open>What the claims speak of\<close>










text \<open>
  The values that \<open>PUT /api/comunidades/:id\<close> sends for a body can be bound, in each
  copy: the first copy sends the values with their defaults (\<open>vals\<close>), the second sends
  them as they are (\<open>vals_v2\<close>).
\<close>

definition put_binds :: "lib \<Rightarrow> comunidade_data \<Rightarrow> bool" where
  "put_binds L data =
     binds L (vals data) (JSON_stringify L (or_json (levantados data) (JArr [])))
       (JSON_stringify L (or_json (carismas data) (JArr [])))"

definition put_binds_v2 :: "lib \<Rightarrow> comunidade_data \<Rightarrow> bool" where
  "put_binds_v2 L data =
     binds L (vals_v2 data) (JSON_stringify L (or_json (levantados data) (JArr [])))
       (JSON_stringify L (or_json (carismas data) (JArr [])))"


section \<open>Pieces of a header\<close>

lemma split_not_Nil: "split c s \<noteq> []"
  by (induction s) (auto split: list.splits)

lemma length_split: "length (split c s) = Suc (count_list s c)"
  by (induction s) (auto split: list.splits)

lemma split_absent: "c \<notin> set s \<Longrightarrow> split c s = [s]"
  by (induction s) auto

lemma split_first: "c \<notin> set a \<Longrightarrow> split c (a @ c # b) = a # split c b"
  by (induction a) auto

lemma hd_split: "hd (split c s) = takeWhile (\<lambda>x. x \<noteq> c) s"
  by (induction s) (auto simp: split_not_Nil split: list.splits)

lemma count_one_decomp:
  assumes "count_list s c = 1"
  shows "\<exists>a b. s = a @ c # b \<and> c \<notin> set a \<and> c \<notin> set b"
proof -
  from assms have "c \<in> set s"
    by (metis count_list_0_iff zero_neq_one)
  then obtain a b where s: "s = a @ c # b" and a: "c \<notin> set a"
    by (auto dest: split_list_first)
  with assms have "count_list b c = 0"
    by (simp add: count_list_0_iff)
  then have "c \<notin> set b"
    by (simp add: count_list_0_iff)
  with s a show ?thesis by blast
qed

lemma split_two:
  "length (split c s) = 2 \<longleftrightarrow> (\<exists>a b. s = a @ c # b \<and> c \<notin> set a \<and> c \<notin> set b)"
proof
  assume "length (split c s) = 2"
  then have "count_list s c = 1" by (simp add: length_split)
  then show "\<exists>a b. s = a @ c # b \<and> c \<notin> set a \<and> c \<notin> set b" by (rule count_one_decomp)
next
  assume "\<exists>a b. s = a @ c # b \<and> c \<notin> set a \<and> c \<notin> set b"
  then show "length (split c s) = 2"
    by (auto simp: split_first split_absent)
qed

lemma second_piece:
  "c \<notin> set a \<Longrightarrow> split c (a @ c # r) ! Suc 0 = takeWhile (\<lambda>x. x \<noteq> c) r"
  using hd_split [of c r] split_not_Nil [of c r]
  by (cases "split c r") (auto simp: split_first)

section \<open>The guard\<close>

lemma guard_accepts:
  "verificarToken L header = Inr user \<longleftrightarrow>
     (\<exists>scheme token. header = Some (scheme @ CHR '' '' # token)
        \<and> CHR '' '' \<notin> set scheme \<and> CHR '' '' \<notin> set token
        \<and> jwt_verify L (Some token) = Some user)"
proof
  assume acc: "verificarToken L header = Inr user"
  then obtain h where h: "header = Some h" and len: "length (split CHR '' '' h) = 2"
    and ver: "jwt_verify L (Some (split CHR '' '' h ! 1)) = Some user"
    by (auto simp: verificarToken_def Let_def split: option.splits if_splits)
  from len obtain a b where ab: "h = a @ CHR '' '' # b" "CHR '' '' \<notin> set a" "CHR '' '' \<notin> set b"
    unfolding split_two by blast
  then have "split CHR '' '' h ! 1 = b"
    by (simp add: split_first split_absent)
  with h ab ver show "\<exists>scheme token. header = Some (scheme @ CHR '' '' # token)
        \<and> CHR '' '' \<notin> set scheme \<and> CHR '' '' \<notin> set token
        \<and> jwt_verify L (Some token) = Some user"
    by auto
next
  assume "\<exists>scheme token. header = Some (scheme @ CHR '' '' # token)
        \<and> CHR '' '' \<notin> set scheme \<and> CHR '' '' \<notin> set token
        \<and> jwt_verify L (Some token) = Some user"
  then show "verificarToken L header = Inr user"
    by (auto simp: verificarToken_def Let_def split_first split_absent)
qed

lemma guard_rejects: "verificarToken L header = Inl out \<Longrightarrow> \<exists>m. out = Reply 401 (Error m)"
  by (auto simp: verificarToken_def Let_def split: option.splits if_splits)

lemma guard_v2_rejects: "verificarToken_v2 L header = Inl out \<Longrightarrow> \<exists>m. out = Reply 401 (Error m)"
  by (auto simp: verificarToken_v2_def Let_def split: option.splits if_splits)

lemma guard_v2_accepts:
  "verificarToken_v2 L header = Inr user \<longleftrightarrow>
     (\<exists>h. header = Some h \<and> h \<noteq> []
        \<and> ((CHR '' '' \<notin> set h \<and> jwt_verify L None = Some user)
           \<or> (\<exists>scheme rest. h = scheme @ CHR '' '' # rest \<and> CHR '' '' \<notin> set scheme
                \<and> jwt_verify L (Some (takeWhile (\<lambda>x. x \<noteq> CHR '' '') rest)) = Some user)))"
proof
  assume acc: "verificarToken_v2 L header = Inr user"
  then obtain h where h: "header = Some h" "h \<noteq> []"
    and ver: "jwt_verify L (if 1 < length (split CHR '' '' h)
                            then Some (split CHR '' '' h ! 1) else None) = Some user"
    by (auto simp: verificarToken_v2_def Let_def split: option.splits if_splits)
  show "\<exists>h. header = Some h \<and> h \<noteq> []
        \<and> ((CHR '' '' \<notin> set h \<and> jwt_verify L None = Some user)
           \<or> (\<exists>scheme rest. h = scheme @ CHR '' '' # rest \<and> CHR '' '' \<notin> set scheme
                \<and> jwt_verify L (Some (takeWhile (\<lambda>x. x \<noteq> CHR '' '') rest)) = Some user))"
  proof (cases "CHR '' '' \<in> set h")
    case False
    with ver h show ?thesis by (simp add: split_absent)
  next
    case True
    then obtain a r where ar: "h = a @ CHR '' '' # r" "CHR '' '' \<notin> set a"
      by (auto dest: split_list_first)
    with ver have "jwt_verify L (Some (takeWhile (\<lambda>x. x \<noteq> CHR '' '') r)) = Some user"
      by (simp add: second_piece length_split)
    with h ar show ?thesis by blast
  qed
next
  assume "\<exists>h. header = Some h \<and> h \<noteq> []
        \<and> ((CHR '' '' \<notin> set h \<and> jwt_verify L None = Some user)
           \<or> (\<exists>scheme rest. h = scheme @ CHR '' '' # rest \<and> CHR '' '' \<notin> set scheme
                \<and> jwt_verify L (Some (takeWhile (\<lambda>x. x \<noteq> CHR '' '') rest)) = Some user))"
  then show "verificarToken_v2 L header = Inr user"
    by (auto simp: verificarToken_v2_def Let_def split_absent second_piece length_split)
qed

text \<open>A header the first guard lets through is let through by the second, with the same claims.\<close>

lemma guard_v2_of_guard:
  "verificarToken L header = Inr user \<Longrightarrow> verificarToken_v2 L header = Inr user"
  by (auto simp: verificarToken_def verificarToken_v2_def Let_def split: option.splits if_splits)

lemma bearer_ana_accepted: "verificarToken ref_lib bearer_ana = Inr ana"
  by code_simp

text \<open>
  C4, as the code has it. The guard answers 401 when the header is absent or empty and
  whenever it does not let the request through. It lets the request through, with the
  decoded claims, exactly when the header is two pieces separated by one space and the
  second piece verifies; the first piece is not looked at, so it need not be \<open>Bearer\<close>. The
  guard of the other copies takes the piece after the first space, up to the next space,
  whatever follows it, and hands \<open>undefined\<close> to the verifier when there is no space.
\<close>

theorem guard_ignores_scheme:
  "(header = None \<or> header = Some [] \<longrightarrow>
      verificarToken L header = Inl (Reply 401 (Error Sem_token))
      \<and> verificarToken_v2 L header = Inl (Reply 401 (Error Sem_token)))
   \<and> (verificarToken L header = Inl out \<longrightarrow> (\<exists>m. out = Reply 401 (Error m)))
   \<and> (verificarToken_v2 L header = Inl out \<longrightarrow> (\<exists>m. out = Reply 401 (Error m)))
   \<and> (verificarToken L header = Inr user \<longleftrightarrow>
        (\<exists>scheme token. header = Some (scheme @ CHR '' '' # token)
           \<and> CHR '' '' \<notin> set scheme \<and> CHR '' '' \<notin> set token
           \<and> jwt_verify L (Some token) = Some user))
   \<and> (verificarToken_v2 L header = Inr user \<longleftrightarrow>
        (\<exists>h. header = Some h \<and> h \<noteq> []
           \<and> ((CHR '' '' \<notin> set h \<and> jwt_verify L None = Some user)
              \<or> (\<exists>scheme rest. h = scheme @ CHR '' '' # rest \<and> CHR '' '' \<notin> set scheme
                   \<and> jwt_verify L (Some (takeWhile (\<lambda>x. x \<noteq> CHR '' '') rest)) = Some user))))"
proof -
  have absent: "header = None \<or> header = Some [] \<longrightarrow>
      verificarToken L header = Inl (Reply 401 (Error Sem_token))
      \<and> verificarToken_v2 L header = Inl (Reply 401 (Error Sem_token))"
    by (auto simp: verificarToken_def verificarToken_v2_def)
  from absent guard_rejects [of L header out] guard_v2_rejects [of L header out]
    guard_accepts [of L header user] guard_v2_accepts [of L header user]
  show ?thesis by blast
qed

theorem guard_ignores_scheme_witness:
  "verificarToken ref_lib (Some (''Bearer'' @ CHR '' '' # ''a1:ana@x.org'')) = Inr ana
   \<and> verificarToken ref_lib None = Inl (Reply 401 (Error Sem_token))
   \<and> verificarToken_v2 ref_lib None = Inl (Reply 401 (Error Sem_token))"
proof -
  have ver: "jwt_verify ref_lib (Some ''a1:ana@x.org'') = Some ana"
    by code_simp
  have sp: "CHR '' '' \<notin> set ''Bearer''" "CHR '' '' \<notin> set ''a1:ana@x.org''"
    by simp_all
  from guard_ignores_scheme [of "Some (''Bearer'' @ CHR '' '' # ''a1:ana@x.org'')" ref_lib _ ana]
    ver sp
  have "verificarToken ref_lib (Some (''Bearer'' @ CHR '' '' # ''a1:ana@x.org'')) = Inr ana"
    by blast
  moreover from guard_ignores_scheme [of None ref_lib]
  have "verificarToken ref_lib None = Inl (Reply 401 (Error Sem_token))
        \<and> verificarToken_v2 ref_lib None = Inl (Reply 401 (Error Sem_token))"
    by blast
  ultimately show ?thesis by blast
qed

text \<open>
  A header whose first piece is \<open>Basic\<close> and whose second piece is a token that verifies is
  not of the form \<open>Bearer <token>\<close>, and the guard lets it through.
\<close>

theorem guard_accepts_basic:
  "verificarToken ref_lib (Some ''Basic a1:ana@x.org'') = Inr ana
   \<and> verificarToken_v2 ref_lib (Some ''Basic a1:ana@x.org'') = Inr ana"
  by code_simp

section \<open>Registration and login\<close>



text \<open>
  C3, as the code has it. A login is answered 400 \<open>Usuario nao encontrado\<close> exactly when
  the query runs and no user has the email, and 400 \<open>Senha incorreta\<close> exactly when a user
  has the email and the hash comparison says no. Every answer other than the 200 is one
  of these two, and the two differ: the answer tells which of the two failed. The route
  sends no answer at all exactly when the database cannot bind the email or \<open>bcrypt.compare\<close>
  rejects its arguments, neither call being inside a \<open>try\<close>.
\<close>

theorem login_failure_reveals_cause:
  "(post_api_login L d email password = Reply 400 (Error Usuario_nao_encontrado)
      \<longleftrightarrow> opt_ok (pg_text L) email \<and> select_users_by_email d email = [])
   \<and> (post_api_login L d email password = Reply 400 (Error Senha_incorreta)
      \<longleftrightarrow> opt_ok (pg_text L) email
          \<and> (\<exists>user rest. select_users_by_email d email = user # rest
                \<and> bcrypt_compare L password (u_password user) = Some False))
   \<and> ((\<exists>e. post_api_login L d email password = Uncaught e)
      \<longleftrightarrow> \<not> opt_ok (pg_text L) email
          \<or> (\<exists>user rest. select_users_by_email d email = user # rest
                \<and> bcrypt_compare L password (u_password user) = None))
   \<and> (post_api_login L d email password = Reply st b \<and> st \<noteq> 200
      \<longrightarrow> st = 400 \<and> (b = Error Usuario_nao_encontrado \<or> b = Error Senha_incorreta))
   \<and> Reply 400 (Error Usuario_nao_encontrado) \<noteq> Reply 400 (Error Senha_incorreta)"
  by (auto simp: post_api_login_def query_users_by_email_def
           split: list.splits option.splits if_splits)

theorem login_failure_reveals_cause_witness:
  "post_api_login ref_lib db_ana (Some ''bob@x.org'') (Some ''s3nha'')
     = Reply 400 (Error Usuario_nao_encontrado)
   \<and> post_api_login ref_lib db_ana (Some ''ana@x.org'') (Some ''wrong'')
     = Reply 400 (Error Senha_incorreta)
   \<and> (\<exists>e. post_api_login ref_lib db_ana (Some ''ana@x.org'') None = Uncaught e)"
proof -
  have bob: "opt_ok (pg_text ref_lib) (Some ''bob@x.org'')
             \<and> select_users_by_email db_ana (Some ''bob@x.org'') = []"
    by code_simp
  have ana_row: "select_users_by_email db_ana (Some ''ana@x.org'')
                  = [\<lparr>u_id = 1, u_name = ''Ana'', u_email = ''ana@x.org'',
                       u_password = ''$2b$10$ahn3s'', u_is_admin = True\<rparr>]"
    by code_simp
  have shape: "opt_ok (pg_text ref_lib) (Some ''ana@x.org'')"
    by code_simp
  have wrong: "bcrypt_compare ref_lib (Some ''wrong'') ''$2b$10$ahn3s'' = Some False"
    by code_simp
  have absent: "bcrypt_compare ref_lib None ''$2b$10$ahn3s'' = None"
    by code_simp
  from login_failure_reveals_cause [of ref_lib db_ana "Some ''bob@x.org''" "Some ''s3nha''"
    400 No_body] bob
  have one: "post_api_login ref_lib db_ana (Some ''bob@x.org'') (Some ''s3nha'')
               = Reply 400 (Error Usuario_nao_encontrado)"
    by blast
  from login_failure_reveals_cause [of ref_lib db_ana "Some ''ana@x.org''" "Some ''wrong''"
    400 No_body] shape ana_row wrong
  have two: "post_api_login ref_lib db_ana (Some ''ana@x.org'') (Some ''wrong'')
               = Reply 400 (Error Senha_incorreta)"
    by simp
  from login_failure_reveals_cause [of ref_lib db_ana "Some ''ana@x.org''" None 400 No_body]
    ana_row absent
  have three: "\<exists>e. post_api_login ref_lib db_ana (Some ''ana@x.org'') None = Uncaught e"
    by simp
  from one two three show ?thesis by blast
qed

text \<open>
  The two failures of a login are told apart by their bodies: an unknown email and a wrong
  password for a known email get different messages.
\<close>

theorem login_failures_differ:
  "post_api_login ref_lib db_ana (Some ''bob@x.org'') (Some ''s3nha'')
     = Reply 400 (Error Usuario_nao_encontrado)
   \<and> post_api_login ref_lib db_ana (Some ''ana@x.org'') (Some ''wrong'')
     = Reply 400 (Error Senha_incorreta)
   \<and> post_api_login ref_lib db_ana (Some ''bob@x.org'') (Some ''s3nha'')
     \<noteq> post_api_login ref_lib db_ana (Some ''ana@x.org'') (Some ''wrong'')"
proof -
  have a: "post_api_login ref_lib db_ana (Some ''bob@x.org'') (Some ''s3nha'')
             = Reply 400 (Error Usuario_nao_encontrado)"
    by code_simp
  have b: "post_api_login ref_lib db_ana (Some ''ana@x.org'') (Some ''wrong'')
             = Reply 400 (Error Senha_incorreta)"
    by code_simp
  show ?thesis
    by (simp add: a b)
qed

section \<open>Deleting and replacing a community\<close>

lemma bearer_ana_accepted_v2: "verificarToken_v2 ref_lib bearer_ana = Inr ana"
  by code_simp

lemma filter_other_id:
  "filter (\<lambda>r. c_id r = i) xs = [] \<Longrightarrow> filter (\<lambda>r. c_id r \<noteq> i) xs = xs"
  by (induction xs) (auto split: if_splits)

lemma map_other_id:
  "filter (\<lambda>r. c_id r = i) xs = [] \<Longrightarrow> map (\<lambda>r. if c_id r = i then row else r) xs = xs"
  by (induction xs) (auto split: if_splits)

lemma filter_filter_other:
  "j \<noteq> i \<Longrightarrow> filter (\<lambda>r. c_id r \<noteq> i \<and> c_id r = j) xs = filter (\<lambda>r. c_id r = j) xs"
  by (induction xs) auto

lemma filter_filter_same:
  "filter (\<lambda>r. c_id r \<noteq> i \<and> c_id r = i) xs = []"
  by (induction xs) auto

text \<open>
  C9, as the code has it. Behind the guard, in both copies: when the database reads the
  route parameter as an \<open>INTEGER\<close>, \<open>DELETE /api/comunidades/:id\<close> answers 200 \<open>{ok:true}\<close>;
  afterwards no row has that id, the rows of every other id and every other table are as
  before, and when no row had the id the tables are the same. When the database does not
  read the parameter as an \<open>INTEGER\<close>, the statement fails, nothing changes and the route
  sends no response.
\<close>

theorem delete_ok_for_integer_id:
  assumes "verificarToken L header = Inr user" and "verificarToken_v2 L header2 = Inr user2"
  shows "(int4_in p = Some i \<longrightarrow>
            delete_api_comunidades_id L d header p
              = (d\<lparr>comunidades := filter (\<lambda>r. c_id r \<noteq> i) (comunidades d)\<rparr>, Reply 200 Ok_true)
          \<and> delete_api_comunidades_id_v2 L d header2 p
              = (d\<lparr>comunidades := filter (\<lambda>r. c_id r \<noteq> i) (comunidades d)\<rparr>, Reply 200 Ok_true)
          \<and> rows_with_id (fst (delete_api_comunidades_id L d header p)) i = []
          \<and> (j \<noteq> i \<longrightarrow> rows_with_id (fst (delete_api_comunidades_id L d header p)) j
                             = rows_with_id d j)
          \<and> (rows_with_id d i = [] \<longrightarrow>
                delete_api_comunidades_id L d header p = (d, Reply 200 Ok_true)
                \<and> delete_api_comunidades_id_v2 L d header2 p = (d, Reply 200 Ok_true)))
     \<and> (int4_in p = None \<longrightarrow>
            delete_api_comunidades_id L d header p = (d, Uncaught QueryError)
          \<and> delete_api_comunidades_id_v2 L d header2 p = (d, Uncaught QueryError))"
  using assms
  by (simp add: delete_api_comunidades_id_def delete_api_comunidades_id_v2_def
        delete_comunidade_def rows_with_id_def filter_other_id filter_filter_other
        filter_filter_same)

theorem delete_ok_for_integer_id_witness:
  "verificarToken ref_lib bearer_ana = Inr ana
   \<and> verificarToken_v2 ref_lib bearer_ana = Inr ana
   \<and> int4_in (Int_text 7) = Some 7
   \<and> rows_with_id db_x 7 = []
   \<and> delete_api_comunidades_id ref_lib db_x bearer_ana (Int_text 7) = (db_x, Reply 200 Ok_true)
   \<and> delete_api_comunidades_id_v2 ref_lib db_x bearer_ana (Int_text 7)
       = (db_x, Reply 200 Ok_true)
   \<and> int4_in huge = None
   \<and> delete_api_comunidades_id_v2 ref_lib db_x bearer_ana huge = (db_x, Uncaught QueryError)"
proof -
  have seven: "int4_in (Int_text 7) = Some 7"
    by code_simp
  have none: "rows_with_id db_x 7 = []"
    by code_simp
  have large: "int4_in huge = None"
    by code_simp
  from delete_ok_for_integer_id [OF bearer_ana_accepted bearer_ana_accepted_v2,
         of "Int_text 7" 7 db_x 0] seven none
  have a: "delete_api_comunidades_id ref_lib db_x bearer_ana (Int_text 7)
             = (db_x, Reply 200 Ok_true)
           \<and> delete_api_comunidades_id_v2 ref_lib db_x bearer_ana (Int_text 7)
             = (db_x, Reply 200 Ok_true)"
    by blast
  from delete_ok_for_integer_id [OF bearer_ana_accepted bearer_ana_accepted_v2,
         of huge 0 db_x 0] large
  have b: "delete_api_comunidades_id_v2 ref_lib db_x bearer_ana huge
             = (db_x, Uncaught QueryError)"
    by blast
  from a b seven none large bearer_ana_accepted bearer_ana_accepted_v2 show ?thesis by blast
qed

text \<open>
  The id 99999999999 is the id of no community, and a \<open>DELETE\<close> with it is not answered
  \<open>{ok:true}\<close>: PostgreSQL rejects the parameter, the route has no \<open>try\<close>, no response is
  sent.
\<close>

theorem delete_huge_id_unanswered:
  "rows_with_id db_x 99999999999 = []
   \<and> delete_api_comunidades_id ref_lib db_x bearer_ana huge = (db_x, Uncaught QueryError)
   \<and> delete_api_comunidades_id_v2 ref_lib db_x bearer_ana huge = (db_x, Uncaught QueryError)"
proof -
  have a: "rows_with_id db_x 99999999999 = []"
    by code_simp
  have b: "delete_api_comunidades_id ref_lib db_x bearer_ana huge = (db_x, Uncaught QueryError)"
    by (simp add: delete_api_comunidades_id_def bearer_ana_accepted delete_comunidade_def
          huge_def int4_in_def int4_def)
  have c: "delete_api_comunidades_id_v2 ref_lib db_x bearer_ana huge
             = (db_x, Uncaught QueryError)"
    by (simp add: delete_api_comunidades_id_v2_def bearer_ana_accepted_v2 delete_comunidade_def
          huge_def int4_in_def int4_def)
  from a b c show ?thesis by simp
qed

text \<open>
  C10, as the code has it. Behind the guard, for a route parameter the database reads as
  an \<open>INTEGER\<close> that is the id of no community: when the values of the body can be bound,
  \<open>PUT /api/comunidades/:id\<close> answers 200 and leaves the tables as they were (the body is
  \<open>{ok:true}\<close> in one copy and empty in the other); when they cannot, the statement fails
  although no row has the id, nothing changes, and the first copy sends no response while the second
  answers 400. \<open>GET /api/comunidades/:id\<close> answers 404 for the same id. For a parameter
  the database does not read as an \<open>INTEGER\<close>, the \<open>PUT\<close> fails in the same way and the \<open>GET\<close>
  sends no response.
\<close>

theorem put_missing_id:
  assumes "verificarToken L header = Inr user" and "verificarToken_v2 L header2 = Inr user2"
  shows "(int4_in p = Some i \<and> rows_with_id d i = [] \<longrightarrow>
            (put_binds L data \<longrightarrow>
               put_api_comunidades_id L d header p data = (d, Reply 200 Ok_true))
          \<and> (\<not> put_binds L data \<longrightarrow>
               put_api_comunidades_id L d header p data = (d, Uncaught QueryError))
          \<and> (put_binds_v2 L data \<longrightarrow>
               put_api_comunidades_id_v2 L d header2 p data = (d, Reply 200 No_body))
          \<and> (\<not> put_binds_v2 L data \<longrightarrow>
               put_api_comunidades_id_v2 L d header2 p data
                 = (d, Reply 400 (Error Erro_ao_atualizar_comunidade)))
          \<and> get_api_comunidades_id L d header p = Reply 404 (Error Nao_encontrado)
          \<and> get_api_comunidades_id_v2 L d header2 p
               = Reply 404 (Error Comunidade_nao_encontrada))
     \<and> (int4_in p = None \<longrightarrow>
            put_api_comunidades_id L d header p data = (d, Uncaught QueryError)
          \<and> put_api_comunidades_id_v2 L d header2 p data
               = (d, Reply 400 (Error Erro_ao_atualizar_comunidade))
          \<and> get_api_comunidades_id L d header p = Uncaught QueryError
          \<and> get_api_comunidades_id_v2 L d header2 p = Uncaught QueryError)"
  using assms
  by (simp add: put_api_comunidades_id_def put_api_comunidades_id_handler_def
        put_api_comunidades_id_v2_def update_comunidade_def Let_def put_binds_def put_binds_v2_def
        get_api_comunidades_id_def get_api_comunidades_id_handler_def get_api_comunidades_id_v2_def
        select_comunidades_by_id_def rows_with_id_def map_other_id)

theorem put_missing_id_witness:
  "verificarToken ref_lib bearer_ana = Inr ana
   \<and> verificarToken_v2 ref_lib bearer_ana = Inr ana
   \<and> int4_in (Int_text 7) = Some 7
   \<and> rows_with_id db_x 7 = []
   \<and> put_binds ref_lib lists_x
   \<and> put_api_comunidades_id ref_lib db_x bearer_ana (Int_text 7) lists_x
       = (db_x, Reply 200 Ok_true)
   \<and> put_binds ref_lib empty_date \<and> \<not> put_binds_v2 ref_lib empty_date
   \<and> put_api_comunidades_id_v2 ref_lib db_x bearer_ana (Int_text 7) empty_date
       = (db_x, Reply 400 (Error Erro_ao_atualizar_comunidade))
   \<and> \<not> put_binds ref_lib no_date
   \<and> put_api_comunidades_id ref_lib db_x bearer_ana (Int_text 7) no_date
       = (db_x, Uncaught QueryError)
   \<and> get_api_comunidades_id ref_lib db_x bearer_ana (Int_text 7)
       = Reply 404 (Error Nao_encontrado)
   \<and> int4_in huge = None
   \<and> get_api_comunidades_id_v2 ref_lib db_x bearer_ana huge = Uncaught QueryError"
proof -
  have seven: "int4_in (Int_text 7) = Some 7"
    by code_simp
  have none: "rows_with_id db_x 7 = []"
    by code_simp
  have large: "int4_in huge = None"
    by code_simp
  have x: "put_binds ref_lib lists_x"
    by code_simp
  have e: "put_binds ref_lib empty_date"
    by code_simp
  have e2: "\<not> put_binds_v2 ref_lib empty_date"
    by code_simp
  have n: "\<not> put_binds ref_lib no_date"
    by code_simp
  from put_missing_id [OF bearer_ana_accepted bearer_ana_accepted_v2,
         of "Int_text 7" 7 db_x lists_x] seven none x
  have a: "put_api_comunidades_id ref_lib db_x bearer_ana (Int_text 7) lists_x
             = (db_x, Reply 200 Ok_true)
           \<and> get_api_comunidades_id ref_lib db_x bearer_ana (Int_text 7)
             = Reply 404 (Error Nao_encontrado)"
    by blast
  from put_missing_id [OF bearer_ana_accepted bearer_ana_accepted_v2,
         of "Int_text 7" 7 db_x empty_date] seven none e2
  have b: "put_api_comunidades_id_v2 ref_lib db_x bearer_ana (Int_text 7) empty_date
             = (db_x, Reply 400 (Error Erro_ao_atualizar_comunidade))"
    by blast
  from put_missing_id [OF bearer_ana_accepted bearer_ana_accepted_v2,
         of "Int_text 7" 7 db_x no_date] seven none n
  have c: "put_api_comunidades_id ref_lib db_x bearer_ana (Int_text 7) no_date
             = (db_x, Uncaught QueryError)"
    by blast
  from put_missing_id [OF bearer_ana_accepted bearer_ana_accepted_v2,
         of huge 0 db_x no_fields] large
  have d: "get_api_comunidades_id_v2 ref_lib db_x bearer_ana huge = Uncaught QueryError"
    by blast
  from a b c d seven none large x e e2 n bearer_ana_accepted bearer_ana_accepted_v2
  show ?thesis by blast
qed

text \<open>
  The id 99999999999 is the id of no community. A \<open>PUT\<close> with it is not answered 200: the
  first copy sends no response, the second answers 400. A \<open>GET\<close> with it is not answered
  404: no response is sent.
\<close>

theorem put_huge_id_not_ok:
  "rows_with_id db_x 99999999999 = []
   \<and> put_api_comunidades_id ref_lib db_x bearer_ana huge lists_x = (db_x, Uncaught QueryError)
   \<and> put_api_comunidades_id_v2 ref_lib db_x bearer_ana huge lists_x
       = (db_x, Reply 400 (Error Erro_ao_atualizar_comunidade))
   \<and> get_api_comunidades_id ref_lib db_x bearer_ana huge = Uncaught QueryError
   \<and> get_api_comunidades_id_v2 ref_lib db_x bearer_ana huge = Uncaught QueryError"
proof -
  have large: "int4_in huge = None"
    by code_simp
  have a: "rows_with_id db_x 99999999999 = []"
    by code_simp
  have b: "put_api_comunidades_id ref_lib db_x bearer_ana huge lists_x
             = (db_x, Uncaught QueryError)"
    by (simp add: put_api_comunidades_id_def put_api_comunidades_id_handler_def
          bearer_ana_accepted update_comunidade_def large)
  have c: "put_api_comunidades_id_v2 ref_lib db_x bearer_ana huge lists_x
             = (db_x, Reply 400 (Error Erro_ao_atualizar_comunidade))"
    by (simp add: put_api_comunidades_id_v2_def bearer_ana_accepted_v2 update_comunidade_def
          large)
  have d: "get_api_comunidades_id ref_lib db_x bearer_ana huge = Uncaught QueryError"
    by (simp add: get_api_comunidades_id_def get_api_comunidades_id_handler_def
          bearer_ana_accepted select_comunidades_by_id_def large)
  have e: "get_api_comunidades_id_v2 ref_lib db_x bearer_ana huge = Uncaught QueryError"
    by (simp add: get_api_comunidades_id_v2_def bearer_ana_accepted_v2
          select_comunidades_by_id_def large)
  from a b c d e show ?thesis by simp
qed

section \<open>Decimal notation\<close>

lemma of_char_digit: "d < 10 \<Longrightarrow> of_char (digit d) = 48 + d"
  by (simp add: digit_def)

lemma read_nat_snoc: "read_nat (s @ [c]) = 10 * read_nat s + (of_char c - 48)"
  by (simp add: read_nat_def)

lemma read_show_nat: "read_nat (show_nat n) = n"
proof (induction n rule: show_nat.induct)
  case (1 n)
  show ?case
  proof (cases "n < 10")
    case True
    then show ?thesis
      by (simp add: show_nat.simps [of n] read_nat_def of_char_digit)
  next
    case False
    with "1" show ?thesis
      by (simp add: show_nat.simps [of n] read_nat_snoc of_char_digit)
  qed
qed

lemma show_nat_digits: "c \<in> set (show_nat n) \<Longrightarrow> is_digit c"
proof (induction n rule: show_nat.induct)
  case (1 n)
  then show ?case
    by (cases "n < 10") (auto simp: show_nat.simps [of n] is_digit_def of_char_digit)
qed

lemma show_nat_not_Nil: "show_nat n \<noteq> []"
  by (simp add: show_nat.simps [of n])

section \<open>The instance reads back what it writes\<close>

text \<open>
  For every document without control characters, the \<open>JSON.parse\<close> of the instance reads
  back the document from the text that its \<open>JSON.stringify\<close> writes, and that text is not
  empty: what the theorems on the embedded lists assume of the libraries holds of the
  instance for all such documents.
\<close>

lemma read_chars_quoted:
  "plain_text s \<Longrightarrow>
   read_chars (concat (map (\<lambda>c. if c = CHR 0x22 \<or> c = CHR 0x5C then [CHR 0x5C, c] else [c]) s)
                 @ CHR 0x22 # rest) = Some (s, rest)"
  by (induction s) (auto simp: plain_text_def)

lemma digit_nonzero: "0 < d \<Longrightarrow> d < 10 \<Longrightarrow> digit d \<noteq> CHR ''0''"
proof
  assume d: "0 < d" "d < 10" and eq: "digit d = CHR ''0''"
  from eq have "(of_char (digit d) :: nat) = of_char CHR ''0''" by simp
  with d show False by (simp add: of_char_digit)
qed

lemma hd_show_nat_nonzero: "10 \<le> n \<Longrightarrow> hd (show_nat n) \<noteq> CHR ''0''"
proof (induction n rule: show_nat.induct)
  case (1 n)
  from "1.prems" have unfold: "show_nat n = show_nat (n div 10) @ [digit (n mod 10)]"
    by (subst show_nat.simps) simp
  show ?case
  proof (cases "n div 10 < 10")
    case True
    then have small: "show_nat (n div 10) = [digit (n div 10)]"
      by (subst show_nat.simps) simp
    from "1.prems" have "0 < n div 10" by simp
    with True have "digit (n div 10) \<noteq> CHR ''0''"
      by (simp add: digit_nonzero)
    with unfold small show ?thesis by simp
  next
    case False
    then have "10 \<le> n div 10" by simp
    with "1.IH" "1.prems" have "hd (show_nat (n div 10)) \<noteq> CHR ''0''" by simp
    with unfold show ?thesis
      by (simp add: show_nat_not_Nil)
  qed
qed


lemma digits_then: 
  assumes "rest = [] \<or> \<not> is_digit (hd rest)"
  shows "takeWhile is_digit (show_nat n @ rest) = show_nat n"
    and "dropWhile is_digit (show_nat n @ rest) = rest"
proof -
  have all: "\<forall>c\<in>set (show_nat n). is_digit c"
    using show_nat_digits by blast
  from assms have t: "takeWhile is_digit rest = []" and d: "dropWhile is_digit rest = rest"
    by (cases rest; auto)+
  from all t show "takeWhile is_digit (show_nat n @ rest) = show_nat n"
    by (simp add: takeWhile_append2)
  from all d show "dropWhile is_digit (show_nat n @ rest) = rest"
    by (simp add: dropWhile_append2)
qed

lemma length_show_nat: "1 < length (show_nat n) \<Longrightarrow> 10 \<le> n"
  by (cases "n < 10") (simp_all add: show_nat.simps [of n])

lemma read_number_nat:
  assumes "rest = [] \<or> \<not> is_digit (hd rest)"
  shows "read_number (show_nat n @ rest) = Some (JNum (int n), rest)"
proof -
  have nominus: "\<not> starts ''-'' (show_nat n @ rest)"
    using show_nat_digits [of "CHR ''-''" n] show_nat_not_Nil [of n]
    by (cases "show_nat n") (auto simp: starts_def is_digit_def)
  have lead: "\<not> (1 < length (show_nat n) \<and> hd (show_nat n) = CHR ''0'')"
    using hd_show_nat_nonzero [of n] length_show_nat [of n] by blast
  show ?thesis
    using nominus lead
    by (simp add: read_number_def Let_def digits_then [OF assms] show_nat_not_Nil read_show_nat)
qed

lemma read_number_int:
  assumes "rest = [] \<or> \<not> is_digit (hd rest)"
  shows "read_number (show_int i @ rest) = Some (JNum i, rest)"
proof (cases "i < 0")
  case False
  with read_number_nat [OF assms, of "nat i"] show ?thesis
    by (simp add: show_int_def)
next
  case True
  have lead: "\<not> (1 < length (show_nat (nat (- i))) \<and> hd (show_nat (nat (- i))) = CHR ''0'')"
    using hd_show_nat_nonzero [of "nat (- i)"] length_show_nat [of "nat (- i)"] by blast
  from True lead show ?thesis
    by (simp add: show_int_def read_number_def Let_def starts_def digits_then [OF assms]
          show_nat_not_Nil read_show_nat)
qed

lemma show_int_first: "\<exists>c r. show_int i = c # r \<and> (c = CHR ''-'' \<or> is_digit c)"
proof (cases "i < 0")
  case True
  then show ?thesis by (simp add: show_int_def)
next
  case False
  obtain c r where cr: "show_nat (nat i) = c # r"
    using show_nat_not_Nil [of "nat i"] by (cases "show_nat (nat i)") auto
  then have "is_digit c"
    using show_nat_digits [of c "nat i"] by simp
  with False cr show ?thesis by (simp add: show_int_def)
qed

lemma stringify_first:
  "\<exists>c r. ref_stringify v = c # r \<and> \<not> is_ws c \<and> c \<noteq> CHR '']'' \<and> c \<noteq> CHR ''}''"
proof (cases v)
  case (JNum i)
  from show_int_first [of i] obtain c r where "show_int i = c # r" "c = CHR ''-'' \<or> is_digit c"
    by blast
  with JNum show ?thesis
    by (auto simp: is_ws_def is_digit_def)
qed (auto simp: is_ws_def quote_def)

lemma read_value_atom:
  "read_value (Suc k) (''null'' @ rest) = Some (JNull, rest)"
  "read_value (Suc k) (''true'' @ rest) = Some (JBool True, rest)"
  "read_value (Suc k) (''false'' @ rest) = Some (JBool False, rest)"
  by (simp_all add: is_ws_def starts_def)

lemma read_value_number:
  assumes "rest = [] \<or> \<not> is_digit (hd rest)"
  shows "read_value (Suc k) (show_int i @ rest) = Some (JNum i, rest)"
proof -
  from show_int_first [of i] obtain c r where cr: "show_int i = c # r"
    and c: "c = CHR ''-'' \<or> is_digit c"
    by blast
  from c have no: "\<not> is_ws c" "c \<noteq> CHR ''n''" "c \<noteq> CHR ''t''" "c \<noteq> CHR ''f''"
    "c \<noteq> CHR 0x22" "c \<noteq> CHR ''[''" "c \<noteq> CHR ''{''"
    by (auto simp: is_ws_def is_digit_def)
  have "read_value (Suc k) (c # r @ rest) = read_number (c # r @ rest)"
    using no by (simp add: starts_def)
  with read_number_int [OF assms, of i] cr show ?thesis by simp
qed

lemma read_value_string:
  assumes "plain_text s"
  shows "read_value (Suc k) (quote s @ rest) = Some (JStr s, rest)"
  using read_chars_quoted [OF assms, of rest]
  by (simp add: quote_def starts_def is_ws_def)

lemma stringify_not_Nil: "ref_stringify v \<noteq> []"
  using stringify_first [of v] by auto

lemma read_elements_join:
  assumes IH: "\<And>x k rest. x \<in> set xs \<Longrightarrow> length (ref_stringify x) < k \<Longrightarrow>
                 rest = [] \<or> \<not> is_digit (hd rest) \<Longrightarrow>
                 read_value k (ref_stringify x @ rest) = Some (x, rest)"
      and "xs \<noteq> []"
      and "length (join '','' (map ref_stringify xs)) + 1 < k"
  shows "read_elements k (join '','' (map ref_stringify xs) @ CHR '']'' # rest) = Some (xs, rest)"
  using assms
proof (induction xs arbitrary: k)
  case Nil
  then show ?case by simp
next
  case (Cons x xs)
  from Cons.prems(3) obtain j where k: "k = Suc j" by (cases k) auto
  show ?case
  proof (cases xs)
    case Nil
    with Cons.prems(3) k have fuel: "length (ref_stringify x) < j" by simp
    have "read_value j (ref_stringify x @ CHR '']'' # rest) = Some (x, CHR '']'' # rest)"
      by (rule Cons.prems(1)) (use fuel in \<open>simp_all add: is_digit_def\<close>)
    with Nil k show ?thesis
      by (simp add: starts_def is_ws_def)
  next
    case (Cons y ys)
    let ?more = "join '','' (map ref_stringify (y # ys)) @ CHR '']'' # rest"
    from Cons Cons.prems(3) k have fuel: "length (ref_stringify x) < j"
      and fuel': "length (join '','' (map ref_stringify (y # ys))) + 1 < j"
      using stringify_not_Nil [of x] by (auto simp: Suc_lessI)
    have first: "read_value j (ref_stringify x @ CHR '','' # ?more) = Some (x, CHR '','' # ?more)"
      by (rule Cons.prems(1)) (use fuel in \<open>simp_all add: is_digit_def\<close>)
    have rest: "read_elements j ?more = Some (y # ys, rest)"
      using Cons.IH [of j] Cons.prems(1) Cons fuel' by simp
    from first rest Cons k show ?thesis
      by (simp add: starts_def is_ws_def)
  qed
qed

lemma member_text_eq: "(\<lambda>(k, v). quote k @ CHR '':'' # ref_stringify v) = member_text"
  by (auto simp: member_text_def fun_eq_iff)

lemma length_member: "length (ref_stringify (snd kv)) + 3 \<le> length (member_text kv)"
  by (simp add: member_text_def quote_def)

lemma read_members_join:
  assumes IH: "\<And>kv k rest. kv \<in> set kvs \<Longrightarrow> length (ref_stringify (snd kv)) < k \<Longrightarrow>
                 rest = [] \<or> \<not> is_digit (hd rest) \<Longrightarrow>
                 read_value k (ref_stringify (snd kv) @ rest) = Some (snd kv, rest)"
      and "kvs \<noteq> []"
      and "list_all (\<lambda>kv. plain_text (fst kv)) kvs"
      and "length (join '','' (map member_text kvs)) + 1 < k"
  shows "read_members k (join '','' (map member_text kvs) @ CHR ''}'' # rest) = Some (kvs, rest)"
  using assms
proof (induction kvs arbitrary: k)
  case Nil
  then show ?case by simp
next
  case (Cons kv kvs)
  obtain key v where kv: "kv = (key, v)" by (cases kv)
  from Cons.prems(4) obtain j where k: "k = Suc j" by (cases k) auto
  from Cons.prems(3) kv have key: "plain_text key" by simp
  have chars: "read_chars (tl (quote key) @ r) = Some (key, r)" for r
    using read_chars_quoted [OF key, of r] by (simp add: quote_def)
  have open_quote: "quote key @ r = CHR 0x22 # tl (quote key) @ r" for r
    by (simp add: quote_def)
  have member: "member_text kv @ r = CHR 0x22 # tl (quote key) @ CHR '':'' # ref_stringify v @ r" for r
    by (simp add: kv member_text_def quote_def)
  show ?case
  proof (cases kvs)
    case Nil
    with Cons.prems(4) k kv length_member [of kv] have fuel: "length (ref_stringify v) < j"
      by simp
    have "read_value j (ref_stringify (snd kv) @ CHR ''}'' # rest) = Some (snd kv, CHR ''}'' # rest)"
      by (rule Cons.prems(1)) (use fuel kv in \<open>simp_all add: is_digit_def\<close>)
    then have val: "read_value j (ref_stringify v @ CHR ''}'' # rest) = Some (v, CHR ''}'' # rest)"
      by (simp add: kv)
    have "read_members (Suc j) (member_text kv @ CHR ''}'' # rest) = Some ([kv], rest)"
      unfolding member
      by (simp add: chars val kv starts_def is_ws_def)
    with Nil k show ?thesis by simp
  next
    case (Cons kv' kvs')
    let ?more = "join '','' (map member_text (kv' # kvs')) @ CHR ''}'' # rest"
    from Cons Cons.prems(4) k kv length_member [of kv] have fuel: "length (ref_stringify v) < j"
      and fuel': "length (join '','' (map member_text (kv' # kvs'))) + 1 < j"
      by auto
    have "read_value j (ref_stringify (snd kv) @ CHR '','' # ?more)
                   = Some (snd kv, CHR '','' # ?more)"
      by (rule Cons.prems(1)) (use fuel kv in \<open>simp_all add: is_digit_def\<close>)
    then have val: "read_value j (ref_stringify v @ CHR '','' # ?more) = Some (v, CHR '','' # ?more)"
      by (simp add: kv)
    have rest: "read_members j ?more = Some (kv' # kvs', rest)"
      using Cons.IH [of j] Cons.prems(1,3) Cons fuel' by simp
    have "read_members (Suc j) (member_text kv @ CHR '','' # ?more) = Some (kv # kv' # kvs', rest)"
      unfolding member
      by (simp add: chars val [simplified] rest [simplified] kv starts_def is_ws_def)
    with Cons k show ?thesis by simp
  qed
qed

lemma read_value_stringify:
  "plain v \<Longrightarrow> length (ref_stringify v) < k \<Longrightarrow> rest = [] \<or> \<not> is_digit (hd rest) \<Longrightarrow>
   read_value k (ref_stringify v @ rest) = Some (v, rest)"
proof (induction v arbitrary: k rest)
  case JNull
  then show ?case by (cases k) (simp_all add: read_value_atom [simplified])
next
  case (JBool b)
  then show ?case by (cases k; cases b) (simp_all add: read_value_atom [simplified])
next
  case (JNum i)
  then show ?case
    using read_value_number [of rest _ i] by (cases k) simp_all
next
  case (JStr s)
  then show ?case
    using read_value_string [of s _ rest] by (cases k) simp_all
next
  case (JArr xs)
  from JArr.prems(2) obtain j where k: "k = Suc j" by (cases k) auto
  show ?case
  proof (cases "xs = []")
    case True
    with k show ?thesis by (simp add: starts_def is_ws_def)
  next
    case False
    let ?body = "join '','' (map ref_stringify xs)"
    from False obtain x xs' where xs: "xs = x # xs'" by (cases xs) auto
    from stringify_first [of x] obtain c r where c: "ref_stringify x = c # r"
      "\<not> is_ws c" "c \<noteq> CHR '']''"
      by blast
    with xs obtain r' where body: "?body = c # r'"
      by (cases xs') auto
    have elems: "read_elements j (?body @ CHR '']'' # rest) = Some (xs, rest)"
    proof (rule read_elements_join)
      show "xs \<noteq> []" by (rule False)
      show "length ?body + 1 < j" using JArr.prems(2) k by simp
      show "read_value k (ref_stringify x @ rest) = Some (x, rest)"
        if "x \<in> set xs" "length (ref_stringify x) < k" "rest = [] \<or> \<not> is_digit (hd rest)"
        for x k rest
        using that JArr.IH [of x k rest] JArr.prems(1) by (simp add: list_all_iff)
    qed
    have "read_value (Suc j) (CHR ''['' # ?body @ CHR '']'' # rest) = Some (JArr xs, rest)"
      using elems c(2,3) unfolding body
      by (simp add: starts_def is_ws_def)
    with k show ?thesis by simp
  qed
next
  case (JObj kvs)
  from JObj.prems(2) obtain j where k: "k = Suc j" by (cases k) auto
  show ?case
  proof (cases "kvs = []")
    case True
    with k show ?thesis by (simp add: starts_def is_ws_def)
  next
    case False
    let ?body = "join '','' (map member_text kvs)"
    have shape: "ref_stringify (JObj kvs) = CHR ''{'' # ?body @ [CHR ''}'']"
      by (simp add: member_text_eq)
    from False obtain kv kvs' where kvs: "kvs = kv # kvs'" by (cases kvs) auto
    then obtain r' where body: "?body = CHR 0x22 # r'"
      by (cases kvs') (auto simp: member_text_def quote_def)
    have members: "read_members j (?body @ CHR ''}'' # rest) = Some (kvs, rest)"
    proof (rule read_members_join)
      show "kvs \<noteq> []" by (rule False)
      show "length ?body + 1 < j" using JObj.prems(2) k unfolding shape by simp
      show "list_all (\<lambda>kv. plain_text (fst kv)) kvs"
        using JObj.prems(1) by (simp add: list_all_iff)
      show "read_value k (ref_stringify (snd kv) @ rest) = Some (snd kv, rest)"
        if "kv \<in> set kvs" "length (ref_stringify (snd kv)) < k" "rest = [] \<or> \<not> is_digit (hd rest)"
        for kv k rest
      proof -
        have mem: "snd kv \<in> Basic_BNFs.snds kv"
          by (cases kv) simp
        from that(1) JObj.prems(1) have "plain (snd kv)"
          by (simp add: list_all_iff)
        with that mem show ?thesis
          by (intro JObj.IH)
      qed
    qed
    have "read_value (Suc j) (CHR ''{'' # ?body @ CHR ''}'' # rest) = Some (JObj kvs, rest)"
      using members unfolding body
      by (simp add: starts_def is_ws_def)
    with k show ?thesis unfolding shape by simp
  qed
qed

lemma ref_parse_stringify: "plain v \<Longrightarrow> ref_parse (ref_stringify v) = Some v"
  using read_value_stringify [of v "Suc (length (ref_stringify v))" "[]"]
  by (simp add: ref_parse_def)

lemma ref_lib_reads_back:
  "plain v \<Longrightarrow> JSON_parse ref_lib (JSON_stringify ref_lib v) = Some v
     \<and> JSON_stringify ref_lib v \<noteq> []"
  by (simp add: ref_lib_def ref_parse_stringify stringify_not_Nil)

section \<open>Creating a community\<close>

text \<open>
  C5, as the code has it. Behind the guard, a community that is created is appended to
  the table. In the first copy an absent \<open>qtd_total\<close> or \<open>qtd_jovens\<close> is stored as 0; in
  the second copy it is stored as \<open>NULL\<close>. In both copies an absent list is stored as the
  text \<open>JSON.stringify\<close> gives for the empty list.
\<close>

theorem create_defaults:
  assumes "verificarToken L header = Inr user" and "verificarToken_v2 L header2 = Inr user2"
  shows "(post_api_comunidades L d header data = (d', Reply 200 b) \<longrightarrow>
            (\<exists>row. comunidades d' = comunidades d @ [row] \<and> b = Id_only (c_id row)
               \<and> (qtd_total data = None \<longrightarrow> qtd_total row = Some 0)
               \<and> (qtd_jovens data = None \<longrightarrow> qtd_jovens row = Some 0)
               \<and> (levantados data = None \<longrightarrow>
                    levantados_json row = Some (JSON_stringify L (JArr [])))
               \<and> (carismas data = None \<longrightarrow>
                    carismas_json row = Some (JSON_stringify L (JArr [])))))
     \<and> (post_api_comunidades_v2 L d header2 data = (d'', Reply 200 b2) \<longrightarrow>
            (\<exists>row. comunidades d'' = comunidades d @ [row] \<and> b2 = Row row
               \<and> (qtd_total data = None \<longrightarrow> qtd_total row = None)
               \<and> (qtd_jovens data = None \<longrightarrow> qtd_jovens row = None)
               \<and> (levantados data = None \<longrightarrow>
                    levantados_json row = Some (JSON_stringify L (JArr [])))
               \<and> (carismas data = None \<longrightarrow>
                    carismas_json row = Some (JSON_stringify L (JArr [])))))"
  using assms
  by (auto simp: post_api_comunidades_def post_api_comunidades_handler_def
        post_api_comunidades_v2_def insert_comunidade_def Let_def vals_def vals_v2_def
        or_int_def or_json_def
        split: if_splits)

theorem create_defaults_witness:
  "verificarToken ref_lib bearer_ana = Inr ana
   \<and> verificarToken_v2 ref_lib bearer_ana = Inr ana
   \<and> snd (post_api_comunidades ref_lib db_ana bearer_ana no_fields) = Reply 200 (Id_only 1)
   \<and> (\<exists>row. comunidades (fst (post_api_comunidades ref_lib db_ana bearer_ana no_fields))
                = comunidades db_ana @ [row]
          \<and> qtd_total row = Some 0 \<and> qtd_jovens row = Some 0
          \<and> levantados_json row = Some ''[]'' \<and> carismas_json row = Some ''[]'')"
proof -
  have post: "post_api_comunidades ref_lib db_ana bearer_ana no_fields
                = (fst (post_api_comunidades ref_lib db_ana bearer_ana no_fields),
                   Reply 200 (Id_only 1))"
    by code_simp
  have empty: "JSON_stringify ref_lib (JArr []) = ''[]''"
    by code_simp
  have absent: "qtd_total no_fields = None" "qtd_jovens no_fields = None"
    "levantados no_fields = None" "carismas no_fields = None"
    by (simp_all add: no_fields_def)
  from create_defaults [OF bearer_ana_accepted bearer_ana_accepted_v2, of db_ana no_fields
      "fst (post_api_comunidades ref_lib db_ana bearer_ana no_fields)" "Id_only 1"]
    post absent empty
  have "\<exists>row. comunidades (fst (post_api_comunidades ref_lib db_ana bearer_ana no_fields))
                = comunidades db_ana @ [row]
          \<and> qtd_total row = Some 0 \<and> qtd_jovens row = Some 0
          \<and> levantados_json row = Some ''[]'' \<and> carismas_json row = Some ''[]''"
    by auto
  with post bearer_ana_accepted bearer_ana_accepted_v2 show ?thesis
    by (metis snd_conv)
qed

text \<open>
  In the second copy a community created from a body without \<open>qtd_total\<close> and \<open>qtd_jovens\<close>
  has \<open>NULL\<close> in both columns, not 0.
\<close>

theorem create_v2_stores_null:
  "snd (post_api_comunidades_v2 ref_lib db_ana bearer_ana no_fields)
     = Reply 200 (Row \<lparr>numero_comunidade = None, nome_diocese = None, nome_bispo = None,
         nome_cidade = None, nome_paroquia = None, nome_paroco = None, nome_vigario = None,
         qtd_total = None, qtd_jovens = None, etapa_id = None, data_formacao = None,
         data_ultima_etapa = None, c_id = 1, levantados_json = Some ''[]'',
         carismas_json = Some ''[]''\<rparr>)
   \<and> map qtd_total (comunidades (fst (post_api_comunidades_v2 ref_lib db_ana bearer_ana no_fields)))
     = [None]
   \<and> map qtd_jovens (comunidades (fst (post_api_comunidades_v2 ref_lib db_ana bearer_ana no_fields)))
     = [None]"
  by code_simp

text \<open>
  C1, as the code has it. Let a community be created, behind the guard, from a body whose
  two fields are lists, and let \<open>JSON.parse\<close> read back each list from the text
  \<open>JSON.stringify\<close> writes for it, that text not being empty. In the first copy, fetching
  the community by the id the creation answered gives the two lists as the parsed fields
  \<open>levantados\<close> and \<open>carismas\<close>. In the second copy the fetch answers the stored row, in
  which the lists are the two texts; it has no parsed fields.
\<close>

theorem create_then_get:
  assumes "verificarToken L header = Inr user" and "verificarToken_v2 L header2 = Inr user2"
      and "levantados data = Some (JArr ls)" and "carismas data = Some (JArr cs)"
      and "JSON_parse L (JSON_stringify L (JArr ls)) = Some (JArr ls)"
      and "JSON_stringify L (JArr ls) \<noteq> []"
      and "JSON_parse L (JSON_stringify L (JArr cs)) = Some (JArr cs)"
      and "JSON_stringify L (JArr cs) \<noteq> []"
  shows "(post_api_comunidades L d header data = (d', Reply 200 (Id_only i)) \<longrightarrow>
            (\<exists>row. get_api_comunidades_id L d' header (Int_text i)
                      = Reply 200 (Parsed row (JArr ls) (JArr cs))
               \<and> c_id row = i))
     \<and> (post_api_comunidades_v2 L d header2 data = (d'', Reply 200 (Row row2)) \<longrightarrow>
            get_api_comunidades_id_v2 L d'' header2 (Int_text (c_id row2))
              = Reply 200 (Row row2)
            \<and> levantados_json row2 = Some (JSON_stringify L (JArr ls))
            \<and> carismas_json row2 = Some (JSON_stringify L (JArr cs)))"
proof -
  have fresh: "filter (\<lambda>r. c_id r = k) rows = []" if "k \<notin> set (map c_id rows)"
    for k and rows :: "comunidade_row list"
    using that by (induction rows) auto
  have first: "\<exists>row. get_api_comunidades_id L d' header (Int_text i)
                       = Reply 200 (Parsed row (JArr ls) (JArr cs)) \<and> c_id row = i"
    if "post_api_comunidades L d header data = (d', Reply 200 (Id_only i))"
    using that assms(1,3-8)
    by (auto simp: post_api_comunidades_def post_api_comunidades_handler_def
          insert_comunidade_def Let_def or_json_def or_text_def fresh
          get_api_comunidades_id_def get_api_comunidades_id_handler_def
          select_comunidades_by_id_def rows_with_id_def int4_in_def parse_row_def
          split: if_splits)
  have second: "get_api_comunidades_id_v2 L d'' header2 (Int_text (c_id row2))
              = Reply 200 (Row row2)
            \<and> levantados_json row2 = Some (JSON_stringify L (JArr ls))
            \<and> carismas_json row2 = Some (JSON_stringify L (JArr cs))"
    if "post_api_comunidades_v2 L d header2 data = (d'', Reply 200 (Row row2))"
    using that assms(2,3,4)
    by (auto simp: post_api_comunidades_v2_def insert_comunidade_def Let_def or_json_def fresh
          get_api_comunidades_id_v2_def select_comunidades_by_id_def rows_with_id_def int4_in_def
          split: if_splits)
  from first second show ?thesis by blast
qed

theorem create_then_get_witness:
  "verificarToken ref_lib bearer_ana = Inr ana
   \<and> verificarToken_v2 ref_lib bearer_ana = Inr ana
   \<and> post_api_comunidades ref_lib db_ana bearer_ana lists_x = (db_x, Reply 200 (Id_only 1))
   \<and> (\<exists>row. get_api_comunidades_id ref_lib db_x bearer_ana (Int_text 1)
               = Reply 200 (Parsed row (JArr [JObj [(''name'', JStr ''X'')]])
                                   (JArr [JObj [(''carisma_id'', JNum 2)]])))"
proof -
  have lev: "levantados lists_x = Some (JArr [JObj [(''name'', JStr ''X'')]])"
    and car: "carismas lists_x = Some (JArr [JObj [(''carisma_id'', JNum 2)]])"
    by (simp_all add: lists_x_def)
  have rt1: "JSON_parse ref_lib (JSON_stringify ref_lib (JArr [JObj [(''name'', JStr ''X'')]]))
               = Some (JArr [JObj [(''name'', JStr ''X'')]])"
    by code_simp
  have ne1: "JSON_stringify ref_lib (JArr [JObj [(''name'', JStr ''X'')]]) \<noteq> []"
    by code_simp
  have rt2: "JSON_parse ref_lib (JSON_stringify ref_lib (JArr [JObj [(''carisma_id'', JNum 2)]]))
               = Some (JArr [JObj [(''carisma_id'', JNum 2)]])"
    by code_simp
  have ne2: "JSON_stringify ref_lib (JArr [JObj [(''carisma_id'', JNum 2)]]) \<noteq> []"
    by code_simp
  have post: "post_api_comunidades ref_lib db_ana bearer_ana lists_x = (db_x, Reply 200 (Id_only 1))"
    by code_simp
  from create_then_get [OF bearer_ana_accepted bearer_ana_accepted_v2 lev car rt1 ne1 rt2 ne2,
      of db_ana db_x 1] post
  have "\<exists>row. get_api_comunidades_id ref_lib db_x bearer_ana (Int_text 1)
               = Reply 200 (Parsed row (JArr [JObj [(''name'', JStr ''X'')]])
                                   (JArr [JObj [(''carisma_id'', JNum 2)]]))"
    by blast
  with post bearer_ana_accepted bearer_ana_accepted_v2 show ?thesis by blast
qed

text \<open>
  In the second copy, fetching the community created from \<open>lists_x\<close> answers the row as it
  is stored: the two lists are the texts of the columns \<open>levantados_json\<close> and
  \<open>carismas_json\<close>, and the response has no parsed field.
\<close>

theorem get_v2_returns_text:
  \<open>get_api_comunidades_id_v2 ref_lib
      (fst (post_api_comunidades_v2 ref_lib db_ana bearer_ana lists_x)) bearer_ana (Int_text 1)
     = Reply 200 (Row \<lparr>numero_comunidade = None, nome_diocese = None, nome_bispo = None,
         nome_cidade = None, nome_paroquia = None, nome_paroco = None, nome_vigario = None,
         qtd_total = None, qtd_jovens = None, etapa_id = None, data_formacao = None,
         data_ultima_etapa = None, c_id = 1, levantados_json = Some ''[{"name":"X"}]'',
         carismas_json = Some ''[{"carisma_id":2}]''\<rparr>)\<close>
  by code_simp

section \<open>Updating the own profile\<close>

lemma select_after_update:
  "select_users_by_id
     (d\<lparr>users := map (\<lambda>u. if u_id u = i then u\<lparr>u_name := n, u_email := e, u_password := h\<rparr>
                              else u) (users d)\<rparr>) i
   = map (\<lambda>u. u\<lparr>u_name := n, u_email := e, u_password := h\<rparr>) (select_users_by_id d i)"
  unfolding select_users_by_id_def
  by (induction "users d" arbitrary: d) (auto simp: filter_map comp_def intro: arg_cong)

lemma handler_keeps_omitted:
  assumes "select_users_by_id d (claim_id user) = [row]"
  shows "\<exists>row'. select_users_by_id (fst (put_api_user_handler L d user name email password))
                    (claim_id user) = [row']
           \<and> (falsy_text name \<longrightarrow> u_name row' = u_name row)
           \<and> (falsy_text email \<longrightarrow> u_email row' = u_email row)
           \<and> (falsy_text password \<longrightarrow> u_password row' = u_password row)
           \<and> (\<not> falsy_text password
                \<and> snd (put_api_user_handler L d user name email password) = Reply 200 Ok_true \<longrightarrow>
                 u_password row' = bcrypt_hash L (or_text password []))
           \<and> (u_password row' = u_password row
                \<or> u_password row' = bcrypt_hash L (or_text password []))"
proof (cases "update_user L d (or_text name (u_name row)) (or_text email (u_email row))
                (if falsy_text password then u_password row else bcrypt_hash L (or_text password []))
                (claim_id user)")
  case None
  with assms have "put_api_user_handler L d user name email password
                     = (d, Reply 400 (Error Erro_ao_atualizar))"
    by (simp add: put_api_user_handler_def)
  with assms show ?thesis
    by simp
next
  case (Some d')
  with assms have put: "put_api_user_handler L d user name email password = (d', Reply 200 Ok_true)"
    by (simp add: put_api_user_handler_def)
  from Some assms have "select_users_by_id d' (claim_id user)
      = [row\<lparr>u_name := or_text name (u_name row), u_email := or_text email (u_email row),
             u_password := (if falsy_text password then u_password row
                            else bcrypt_hash L (or_text password []))\<rparr>]"
    by (auto simp: update_user_def select_after_update split: if_splits)
  with put show ?thesis
    by (auto simp: falsy_text_def or_text_def split: option.splits)
qed

text \<open>
  C8. Behind the guard, for the user the token names, \<open>PUT /api/user\<close> leaves the name,
  the email and the password hash as stored for every one of the three fields that is
  omitted (or empty). When a password is given and the update is answered 200, the stored
  value is the hash \<open>bcrypt\<close> computes for it. In every case the stored value is either the
  prior hash or a hash computed by \<open>bcrypt\<close>: the password itself is never what is written.
  This holds in every copy, each behind its own guard.
\<close>

theorem update_self_keeps_omitted:
  assumes "verificarToken L header = Inr user"
      and "select_users_by_id d (claim_id user) = [row]"
      and "verificarToken_v2 L header2 = Inr user2"
      and "select_users_by_id d (claim_id user2) = [row2]"
  shows "(\<exists>row'. select_users_by_id (fst (put_api_user L d header name email password))
                    (claim_id user) = [row']
           \<and> (falsy_text name \<longrightarrow> u_name row' = u_name row)
           \<and> (falsy_text email \<longrightarrow> u_email row' = u_email row)
           \<and> (falsy_text password \<longrightarrow> u_password row' = u_password row)
           \<and> (\<not> falsy_text password
                \<and> snd (put_api_user L d header name email password) = Reply 200 Ok_true \<longrightarrow>
                 u_password row' = bcrypt_hash L (or_text password []))
           \<and> (u_password row' = u_password row
                \<or> u_password row' = bcrypt_hash L (or_text password [])))
     \<and> (\<exists>row'. select_users_by_id (fst (put_api_user_v2 L d header2 name email password))
                    (claim_id user2) = [row']
           \<and> (falsy_text name \<longrightarrow> u_name row' = u_name row2)
           \<and> (falsy_text email \<longrightarrow> u_email row' = u_email row2)
           \<and> (falsy_text password \<longrightarrow> u_password row' = u_password row2)
           \<and> (\<not> falsy_text password
                \<and> snd (put_api_user_v2 L d header2 name email password) = Reply 200 Ok_true \<longrightarrow>
                 u_password row' = bcrypt_hash L (or_text password []))
           \<and> (u_password row' = u_password row2
                \<or> u_password row' = bcrypt_hash L (or_text password [])))"
proof -
  have one: "put_api_user L d header name email password
               = put_api_user_handler L d user name email password"
    using assms(1) by (simp add: put_api_user_def)
  have two: "put_api_user_v2 L d header2 name email password
               = put_api_user_handler L d user2 name email password"
    using assms(3) by (simp add: put_api_user_v2_def)
  from handler_keeps_omitted [OF assms(2), of L name email password]
       handler_keeps_omitted [OF assms(4), of L name email password]
  show ?thesis
    unfolding one two by blast
qed

theorem update_self_keeps_omitted_witness:
  "verificarToken ref_lib bearer_ana = Inr ana
   \<and> verificarToken_v2 ref_lib bearer_ana = Inr ana
   \<and> select_users_by_id db_ana (claim_id ana)
       = [\<lparr>u_id = 1, u_name = ''Ana'', u_email = ''ana@x.org'', u_password = ''$2b$10$ahn3s'',
            u_is_admin = True\<rparr>]
   \<and> (\<exists>row'. select_users_by_id
                (fst (put_api_user ref_lib db_ana bearer_ana None None (Some ''nova'')))
                (claim_id ana) = [row']
          \<and> u_name row' = ''Ana'' \<and> u_email row' = ''ana@x.org''
          \<and> u_password row' = ''$2b$10$avon'')"
proof -
  have sel: "select_users_by_id db_ana (claim_id ana)
       = [\<lparr>u_id = 1, u_name = ''Ana'', u_email = ''ana@x.org'', u_password = ''$2b$10$ahn3s'',
            u_is_admin = True\<rparr>]"
    by code_simp
  have ok: "snd (put_api_user ref_lib db_ana bearer_ana None None (Some ''nova'')) = Reply 200 Ok_true"
    by code_simp
  have h: "bcrypt_hash ref_lib ''nova'' = ''$2b$10$avon''"
    by code_simp
  from update_self_keeps_omitted [OF bearer_ana_accepted sel bearer_ana_accepted_v2 sel,
      of None None "Some ''nova''"] ok h
  have "\<exists>row'. select_users_by_id
                (fst (put_api_user ref_lib db_ana bearer_ana None None (Some ''nova'')))
                (claim_id ana) = [row']
          \<and> u_name row' = ''Ana'' \<and> u_email row' = ''ana@x.org''
          \<and> u_password row' = ''$2b$10$avon''"
    by (auto simp: falsy_text_def or_text_def)
  with sel bearer_ana_accepted bearer_ana_accepted_v2 show ?thesis by blast
qed

section \<open>Reading the stored texts\<close>














section \<open>The charism report\<close>























lemma no_char_null: "JNull \<notin> set (map (\<lambda>c. JStr [c]) s)"
  by auto






end
